theory Spec2Isabelle
  imports Main "HOL-Library.Word" "HOL-Library.AList"
begin

unbundle bit_operations_syntax

section \<open>Name and hash utilities (pkg/proxy/tools.go)\<close>

text \<open>
  The two chain-name functions hash their arguments with \<^verbatim>\<open>sha256.Sum256\<close>, encode
  the digest with \<^verbatim>\<open>base32.StdEncoding\<close> and keep the first sixteen characters.
  Both library functions are written out here (FIPS 180-4 and RFC 4648), so that the
  names are computed, not postulated. A Go string is a sequence of bytes, and so is a
  HOL \<open>string\<close>.
\<close>

type_synonym byte = "8 word"

subsection \<open>SHA-256\<close>

text \<open>The round constants (the first 32 bits of the fractional parts of the cube roots
  of the first 64 primes) and the initial hash value (of the square roots of the first
  eight), in decimal.\<close>

definition sha256_K :: "32 word list" where
  "sha256_K =
    [1116352408, 1899447441, 3049323471, 3921009573, 961987163, 1508970993,
     2453635748, 2870763221, 3624381080, 310598401, 607225278, 1426881987,
     1925078388, 2162078206, 2614888103, 3248222580, 3835390401, 4022224774,
     264347078, 604807628, 770255983, 1249150122, 1555081692, 1996064986,
     2554220882, 2821834349, 2952996808, 3210313671, 3336571891, 3584528711,
     113926993, 338241895, 666307205, 773529912, 1294757372, 1396182291,
     1695183700, 1986661051, 2177026350, 2456956037, 2730485921, 2820302411,
     3259730800, 3345764771, 3516065817, 3600352804, 4094571909, 275423344,
     430227734, 506948616, 659060556, 883997877, 958139571, 1322822218,
     1537002063, 1747873779, 1955562222, 2024104815, 2227730452, 2361852424,
     2428436474, 2756734187, 3204031479, 3329325298]"

type_synonym sha256_state =
  "32 word \<times> 32 word \<times> 32 word \<times> 32 word \<times> 32 word \<times> 32 word \<times> 32 word \<times> 32 word"

definition sha256_init :: sha256_state where
  "sha256_init =
    (1779033703, 3144134277, 1013904242, 2773480762,
     1359893119, 2600822924, 528734635, 1541459225)"

definition Ch :: "32 word \<Rightarrow> 32 word \<Rightarrow> 32 word \<Rightarrow> 32 word" where
  "Ch x y z = (x AND y) XOR (NOT x AND z)"

definition Maj :: "32 word \<Rightarrow> 32 word \<Rightarrow> 32 word \<Rightarrow> 32 word" where
  "Maj x y z = (x AND y) XOR (x AND z) XOR (y AND z)"

definition bsig0 :: "32 word \<Rightarrow> 32 word" where
  "bsig0 x = word_rotr 2 x XOR word_rotr 13 x XOR word_rotr 22 x"

definition bsig1 :: "32 word \<Rightarrow> 32 word" where
  "bsig1 x = word_rotr 6 x XOR word_rotr 11 x XOR word_rotr 25 x"

definition ssig0 :: "32 word \<Rightarrow> 32 word" where
  "ssig0 x = word_rotr 7 x XOR word_rotr 18 x XOR drop_bit 3 x"

definition ssig1 :: "32 word \<Rightarrow> 32 word" where
  "ssig1 x = word_rotr 17 x XOR word_rotr 19 x XOR drop_bit 10 x"

text \<open>Padding: the byte \<open>0x80\<close>, zero bytes up to 56 modulo 64, and the length in bits
  as a 64-bit big-endian number.\<close>

definition be64_bytes :: "64 word \<Rightarrow> byte list" where
  "be64_bytes w = map (\<lambda>i. ucast (drop_bit (8 * (7 - i)) w)) [0..<8]"

definition sha256_pad :: "byte list \<Rightarrow> byte list" where
  "sha256_pad m =
     m @ [0x80] @ replicate ((119 - length m mod 64) mod 64) 0 @ be64_bytes (8 * of_nat (length m))"

definition be32_word :: "byte list \<Rightarrow> 32 word" where
  "be32_word bs = foldl (\<lambda>acc b. push_bit 8 acc OR ucast b) 0 bs"

definition be32_bytes :: "32 word \<Rightarrow> byte list" where
  "be32_bytes w = [ucast (drop_bit 24 w), ucast (drop_bit 16 w), ucast (drop_bit 8 w), ucast w]"

primrec chunks_of :: "nat \<Rightarrow> nat \<Rightarrow> 'a list \<Rightarrow> 'a list list" where
  "chunks_of 0 k xs = []"
| "chunks_of (Suc n) k xs = take k xs # chunks_of n k (drop k xs)"

definition sha256_blocks :: "byte list \<Rightarrow> 32 word list list" where
  "sha256_blocks m = map (\<lambda>blk. map be32_word (chunks_of 16 4 blk)) (chunks_of (length m div 64) 64 m)"

primrec sha256_extend :: "nat \<Rightarrow> 32 word list \<Rightarrow> 32 word list" where
  "sha256_extend 0 w = w"
| "sha256_extend (Suc n) w =
     (let t = length w
      in sha256_extend n
           (w @ [ssig1 (w ! (t - 2)) + w ! (t - 7) + ssig0 (w ! (t - 15)) + w ! (t - 16)]))"

definition sha256_round :: "sha256_state \<Rightarrow> 32 word \<times> 32 word \<Rightarrow> sha256_state" where
  "sha256_round st kw =
     (case st of (a, b, c, d, e, f, g, h) \<Rightarrow>
        (let t1 = h + bsig1 e + Ch e f g + fst kw + snd kw;
             t2 = bsig0 a + Maj a b c
         in (t1 + t2, a, b, c, d + t1, e, f, g)))"

definition sha256_add :: "sha256_state \<Rightarrow> sha256_state \<Rightarrow> sha256_state" where
  "sha256_add s t =
     (case s of (a, b, c, d, e, f, g, h) \<Rightarrow>
      case t of (a', b', c', d', e', f', g', h') \<Rightarrow>
        (a + a', b + b', c + c', d + d', e + e', f + f', g + g', h + h'))"

definition sha256_compress :: "sha256_state \<Rightarrow> 32 word list \<Rightarrow> sha256_state" where
  "sha256_compress st blk =
     sha256_add st (foldl sha256_round st (zip sha256_K (sha256_extend 48 blk)))"

definition sha256 :: "byte list \<Rightarrow> byte list" where
  "sha256 m =
     (case foldl sha256_compress sha256_init (sha256_blocks (sha256_pad m)) of
        (a, b, c, d, e, f, g, h) \<Rightarrow> concat (map be32_bytes [a, b, c, d, e, f, g, h]))"

subsection \<open>Base32, standard alphabet, with padding\<close>

definition encodeStd :: string where
  "encodeStd = ''ABCDEFGHIJKLMNOPQRSTUVWXYZ234567''"

definition b32_char :: "byte \<Rightarrow> char" where
  "b32_char b = encodeStd ! unat (b AND 31)"

text \<open>One quantum of \<^verbatim>\<open>Encoding.Encode\<close>: up to five source bytes become eight
  characters; the \<^verbatim>\<open>switch\<close> with its \<^verbatim>\<open>fallthrough\<close> leaves the five-bit groups of
  absent bytes zero, and the final quantum is padded with \<open>=\<close>.\<close>

definition b32_src :: "byte list \<Rightarrow> nat \<Rightarrow> byte" where
  "b32_src src i = (if i < length src then src ! i else 0)"

definition b32_groups :: "byte list \<Rightarrow> byte list" where
  "b32_groups src =
     [drop_bit 3 (b32_src src 0),
      (drop_bit 6 (b32_src src 1) AND 0x1F) OR (push_bit 2 (b32_src src 0) AND 0x1F),
      drop_bit 1 (b32_src src 1) AND 0x1F,
      (drop_bit 4 (b32_src src 2) AND 0x1F) OR (push_bit 4 (b32_src src 1) AND 0x1F),
      drop_bit 7 (b32_src src 3) OR (push_bit 1 (b32_src src 2) AND 0x1F),
      drop_bit 2 (b32_src src 3) AND 0x1F,
      drop_bit 5 (b32_src src 4) OR (push_bit 3 (b32_src src 3) AND 0x1F),
      b32_src src 4 AND 0x1F]"

definition b32_pad_count :: "nat \<Rightarrow> nat" where
  "b32_pad_count n = (if n < 2 then 6 else if n < 3 then 4 else if n < 4 then 3 else if n < 5 then 1 else 0)"

definition b32_quantum :: "byte list \<Rightarrow> string" where
  "b32_quantum src =
     take (8 - b32_pad_count (length src)) (map b32_char (b32_groups src))
       @ replicate (b32_pad_count (length src)) (CHR ''='')"

fun base32_encode :: "byte list \<Rightarrow> string" where
  "base32_encode [] = []"
| "base32_encode (s0 # s1 # s2 # s3 # s4 # rest) =
     b32_quantum [s0, s1, s2, s3, s4] @ base32_encode rest"
| "base32_encode src = b32_quantum src"

subsection \<open>The chain names\<close>

datatype panic = SliceBounds | IndexOutOfRange | NilDereference

text \<open>\<^verbatim>\<open>s[:n]\<close> panics when \<open>n\<close> exceeds the length of \<open>s\<close>.\<close>

definition slice_to :: "nat \<Rightarrow> 'a list \<Rightarrow> panic + 'a list" where
  "slice_to n s = (if n \<le> length s then Inr (take n s) else Inl SliceBounds)"

definition string_bytes :: "string \<Rightarrow> byte list" where
  "string_bytes s = map of_char s"

definition portProtoHash :: "string \<Rightarrow> string \<Rightarrow> panic + string" where
  "portProtoHash servicePortName protocol =
     (let hash = sha256 (string_bytes (servicePortName @ protocol));
          encoded = base32_encode hash
      in case slice_to 16 encoded of
           Inl p \<Rightarrow> Inl p
         | Inr t \<Rightarrow> Inr (''k8s-nfproxy-svc-'' @ t))"

definition servicePortEndpointChainName :: "string \<Rightarrow> string \<Rightarrow> string \<Rightarrow> panic + string" where
  "servicePortEndpointChainName servicePortName protocol endpoint =
     (let hash = sha256 (string_bytes (servicePortName @ protocol @ endpoint));
          encoded = base32_encode hash
      in case slice_to 16 encoded of
           Inl p \<Rightarrow> Inl p
         | Inr t \<Rightarrow> Inr (''k8s-nfproxy-sep-'' @ t))"

section \<open>Data model\<close>

text \<open>
  The Kubernetes objects, with the fields the proxy reads. A Go pointer that the code
  dereferences is an \<open>option\<close> (\<open>None\<close> is \<^verbatim>\<open>nil\<close>); a Go map that the code only
  looks up and stores into is a HOL map.
\<close>

type_synonym Protocol = string

datatype TableFamily = TableFamilyIPv4 | TableFamilyIPv6

datatype IPFamily = IPv4Protocol | IPv6Protocol

datatype ServicePortName =
  ServicePortName (spn_Namespace: string) (spn_Name: string) (spn_Port: string) (spn_Protocol: Protocol)

datatype ServicePort =
  ServicePort (sp_Name: string) (sp_Protocol: Protocol) (sp_Port: int) (sp_NodePort: int)

record Service =
  svc_Namespace :: string
  svc_Name :: string
  svc_Type :: string
  svc_ClusterIP :: string
  svc_Ports :: "ServicePort list"
  svc_ExternalIPs :: "string list"
  svc_LoadBalancerIPs :: "string list"

datatype EndpointAddress =
  EndpointAddress (ea_IP: string) (ea_Hostname: string) (ea_NodeName: "string option")
    (ea_TargetRef: "string option")

datatype EndpointPort =
  EndpointPort (ep_Name: string) (ep_Port: int) (ep_Protocol: Protocol)

datatype EndpointSubset =
  EndpointSubset (ss_Addresses: "EndpointAddress list") (ss_Ports: "EndpointPort list")

record Endpoints =
  eps_Namespace :: string
  eps_Name :: string
  eps_Subsets :: "EndpointSubset list"

datatype SlicePort =
  SlicePort (slp_Name: "string option") (slp_Protocol: "Protocol option") (slp_Port: "int option")

datatype SliceEndpoint =
  SliceEndpoint (sle_Addresses: "string list") (sle_Ready: "bool option")
    (sle_Hostname: "string option") (sle_TargetRef: "string option")

record EndpointSlice =
  epsl_Namespace :: string
  epsl_Name :: string
  epsl_ResourceVersion :: string
  epsl_Labels :: "(string \<times> string) list"
  epsl_Endpoints :: "SliceEndpoint list"
  epsl_Ports :: "SlicePort list"

datatype error =
    DriverError
  | InvalidPort string
  | NotFound string string
  | Panic panic

datatype logmsg =
    Infof string "string list"
  | Warningf string "string list"
  | Errorf string "string list"

text \<open>\<^verbatim>\<open>getSvcPortName\<close> (proxy.go).\<close>

definition getSvcPortName :: "string \<Rightarrow> string \<Rightarrow> string \<Rightarrow> Protocol \<Rightarrow> ServicePortName" where
  "getSvcPortName name namespace portName protocol = ServicePortName namespace name portName protocol"

text \<open>Modelled from the spec: the type \<^verbatim>\<open>ServicePortName\<close> and its \<^verbatim>\<open>String\<close> method are
  declared outside the files at hand; the spec calls the value \<^verbatim>\<open>SvcPortKey.string\<close>. It is
  the namespaced name followed, for a named port, by a colon and the port name.\<close>

definition spn_String :: "ServicePortName \<Rightarrow> string" where
  "spn_String spn =
     spn_Namespace spn @ ''/'' @ spn_Name spn
       @ (if spn_Port spn = [] then [] else '':'' @ spn_Port spn)"

text \<open>Modelled from the spec: the address helpers of the Kubernetes libraries. Addresses
  come validated from the API server; for such an address, \<^verbatim>\<open>IsIPv6String\<close> holds exactly
  when it contains a colon, and \<^verbatim>\<open>net.ParseIP\<close> fails only on the empty string.\<close>

definition IsIPv6String :: "string \<Rightarrow> bool" where
  "IsIPv6String s = (CHR '':'' \<in> set s)"

definition ParseIP :: "string \<Rightarrow> string option" where
  "ParseIP s = (if s = [] then None else Some s)"

definition IP_String :: "string option \<Rightarrow> string" where
  "IP_String ip = (case ip of None \<Rightarrow> ''<nil>'' | Some a \<Rightarrow> a)"

text \<open>\<^verbatim>\<open>getIPFamily\<close> (proxy.go).\<close>

definition getIPFamily :: "string \<Rightarrow> IPFamily \<times> TableFamily" where
  "getIPFamily ipaddr =
     (if IsIPv6String ipaddr then (IPv6Protocol, TableFamilyIPv6)
      else (IPv4Protocol, TableFamilyIPv4))"

text \<open>Decimal rendering of a number (\<^verbatim>\<open>strconv.Itoa\<close>) and \<^verbatim>\<open>net.JoinHostPort\<close>.\<close>

fun nat_digits :: "nat \<Rightarrow> string" where
  "nat_digits n =
     (if n < 10 then [''0123456789'' ! n]
      else nat_digits (n div 10) @ [''0123456789'' ! (n mod 10)])"

declare nat_digits.simps [simp del]

definition Itoa :: "int \<Rightarrow> string" where
  "Itoa i = (if i < 0 then ''-'' @ nat_digits (nat (- i)) else nat_digits (nat i))"

definition JoinHostPort :: "string \<Rightarrow> string \<Rightarrow> string" where
  "JoinHostPort host port =
     (if CHR '':'' \<in> set host \<or> CHR ''%'' \<in> set host then ''['' @ host @ '']:'' @ port
      else host @ '':'' @ port)"

section \<open>The nftables driver\<close>

text \<open>
  Modelled from the spec: package \<^verbatim>\<open>nftables\<close> of the repository is not among the files at
  hand; the proxy only calls it. The kernel state below follows the spec's description of
  the driver primitives (sections 4.4 and 6.2): named chains holding rules with handles,
  and the no-endpoints verdict set. Every call is recorded in a journal, in the order the
  proxy issues it. A call is rejected (\<open>DriverError\<close>, nothing installed) when the next
  entry of the fault schedule says so; with an empty schedule every call succeeds.
\<close>

definition K8sNATServices :: string where "K8sNATServices = ''k8s-nat-services''"
definition K8sNATNodeports :: string where "K8sNATNodeports = ''k8s-nat-nodeports''"
definition K8sSvcPrefix :: string where "K8sSvcPrefix = ''k8s-nfproxy-svc-''"
definition K8sFwPrefix :: string where "K8sFwPrefix = ''k8s-nfproxy-fw-''"
definition K8sXlbPrefix :: string where "K8sXlbPrefix = ''k8s-nfproxy-xlb-''"

datatype krule = KRule (kr_handle: nat) (kr_jump: "string option")

datatype driver_op =
    OpAddToNoEndpointsList TableFamily string string "16 word"
  | OpRemoveFromNoEndpointsList TableFamily string string "16 word"
  | OpAddServiceChains TableFamily string
  | OpDeleteServiceChains TableFamily string
  | OpProgramServiceClusterIP TableFamily string string Protocol int
  | OpProgramServiceNodePort TableFamily string Protocol int
  | OpProgramServiceExternalIP TableFamily string "string list" Protocol int nat
  | OpProgramServiceLoadBalancerFW TableFamily string
  | OpProgramServiceLoadBalancerIP TableFamily string "string list" Protocol int nat
  | OpProgramServiceEndpoints TableFamily string "string list" "nat list"
  | OpDeleteServiceRules TableFamily string "nat list"
  | OpAddEndpointRules TableFamily string string Protocol int
  | OpDeleteEndpointRules TableFamily string "nat list"
  | OpDeleteChain TableFamily string

record kernel =
  k_chains :: "TableFamily \<times> string \<Rightarrow> krule list option"
  k_noEndpoints :: "(TableFamily \<times> string \<times> string \<times> 16 word) set"
  k_nextHandle :: nat
  k_faults :: "bool list"
  k_journal :: "driver_op list"

definition drv_call :: "driver_op \<Rightarrow> (kernel \<Rightarrow> 'a \<times> kernel) \<Rightarrow> kernel \<Rightarrow> (error + 'a) \<times> kernel" where
  "drv_call op f k =
     (let k1 = k\<lparr>k_journal := k_journal k @ [op]\<rparr>
      in case k_faults k1 of
           [] \<Rightarrow> (case f k1 of (r, k2) \<Rightarrow> (Inr r, k2))
         | rejected # fs \<Rightarrow>
             (if rejected then (Inl DriverError, k1\<lparr>k_faults := fs\<rparr>)
              else (case f (k1\<lparr>k_faults := fs\<rparr>) of (r, k2) \<Rightarrow> (Inr r, k2))))"

definition err_of :: "(error + 'a) \<times> 's \<Rightarrow> error option \<times> 's" where
  "err_of r = (case r of (Inl e, s) \<Rightarrow> (Some e, s) | (Inr _, s) \<Rightarrow> (None, s))"

definition rules_of :: "kernel \<Rightarrow> TableFamily \<Rightarrow> string \<Rightarrow> krule list" where
  "rules_of k fam cn = (case k_chains k (fam, cn) of None \<Rightarrow> [] | Some rs \<Rightarrow> rs)"

definition fresh_rules :: "nat \<Rightarrow> string option list \<Rightarrow> krule list" where
  "fresh_rules h targets = map (\<lambda>(i, t). KRule i t) (zip [h ..< h + length targets] targets)"

definition append_rules :: "TableFamily \<Rightarrow> string \<Rightarrow> string option list \<Rightarrow> kernel \<Rightarrow> nat list \<times> kernel" where
  "append_rules fam cn targets k =
     (let new = fresh_rules (k_nextHandle k) targets
      in (map kr_handle new,
          k\<lparr>k_chains := (k_chains k)((fam, cn) \<mapsto> rules_of k fam cn @ new),
            k_nextHandle := k_nextHandle k + length targets\<rparr>))"

fun place_after :: "nat \<Rightarrow> krule list \<Rightarrow> krule list \<Rightarrow> krule list" where
  "place_after pos new [] = new"
| "place_after pos new (r # rs) =
     (if kr_handle r = pos then r # new @ rs else r # place_after pos new rs)"

definition insert_rules_after ::
    "TableFamily \<Rightarrow> string \<Rightarrow> nat \<Rightarrow> string option list \<Rightarrow> kernel \<Rightarrow> nat list \<times> kernel" where
  "insert_rules_after fam cn pos targets k =
     (let new = fresh_rules (k_nextHandle k) targets
      in (map kr_handle new,
          k\<lparr>k_chains := (k_chains k)((fam, cn) \<mapsto> place_after pos new (rules_of k fam cn)),
            k_nextHandle := k_nextHandle k + length targets\<rparr>))"

definition remove_rules :: "TableFamily \<Rightarrow> string \<Rightarrow> nat list \<Rightarrow> kernel \<Rightarrow> kernel" where
  "remove_rules fam cn handles k =
     k\<lparr>k_chains := (k_chains k)((fam, cn) :=
          map_option (filter (\<lambda>r. kr_handle r \<notin> set handles)) (k_chains k (fam, cn)))\<rparr>"

definition ensure_chain :: "TableFamily \<Rightarrow> string \<Rightarrow> kernel \<Rightarrow> kernel" where
  "ensure_chain fam cn k = k\<lparr>k_chains := (k_chains k)((fam, cn) \<mapsto> rules_of k fam cn)\<rparr>"

definition drop_chain :: "TableFamily \<Rightarrow> string \<Rightarrow> kernel \<Rightarrow> kernel" where
  "drop_chain fam cn k = k\<lparr>k_chains := (k_chains k)((fam, cn) := None)\<rparr>"

definition AddToNoEndpointsList ::
    "TableFamily \<Rightarrow> string \<Rightarrow> string \<Rightarrow> 16 word \<Rightarrow> kernel \<Rightarrow> error option \<times> kernel" where
  "AddToNoEndpointsList fam proto ip port k =
     err_of (drv_call (OpAddToNoEndpointsList fam proto ip port)
       (\<lambda>k. ((), k\<lparr>k_noEndpoints := insert (fam, proto, ip, port) (k_noEndpoints k)\<rparr>)) k)"

definition RemoveFromNoEndpointsList ::
    "TableFamily \<Rightarrow> string \<Rightarrow> string \<Rightarrow> 16 word \<Rightarrow> kernel \<Rightarrow> error option \<times> kernel" where
  "RemoveFromNoEndpointsList fam proto ip port k =
     err_of (drv_call (OpRemoveFromNoEndpointsList fam proto ip port)
       (\<lambda>k. ((), k\<lparr>k_noEndpoints := k_noEndpoints k - {(fam, proto, ip, port)}\<rparr>)) k)"

definition AddServiceChains :: "TableFamily \<Rightarrow> string \<Rightarrow> kernel \<Rightarrow> error option \<times> kernel" where
  "AddServiceChains fam svcID k =
     err_of (drv_call (OpAddServiceChains fam svcID)
       (\<lambda>k. ((), ensure_chain fam (K8sXlbPrefix @ svcID)
                    (ensure_chain fam (K8sFwPrefix @ svcID)
                      (ensure_chain fam (K8sSvcPrefix @ svcID) k)))) k)"

definition DeleteServiceChains :: "TableFamily \<Rightarrow> string \<Rightarrow> kernel \<Rightarrow> error option \<times> kernel" where
  "DeleteServiceChains fam svcID k =
     err_of (drv_call (OpDeleteServiceChains fam svcID)
       (\<lambda>k. ((), drop_chain fam (K8sXlbPrefix @ svcID)
                    (drop_chain fam (K8sFwPrefix @ svcID)
                      (drop_chain fam (K8sSvcPrefix @ svcID) k)))) k)"

definition ProgramServiceClusterIP ::
    "TableFamily \<Rightarrow> string \<Rightarrow> string \<Rightarrow> Protocol \<Rightarrow> int \<Rightarrow> kernel \<Rightarrow> (error + nat list) \<times> kernel" where
  "ProgramServiceClusterIP fam cn ip proto port k =
     drv_call (OpProgramServiceClusterIP fam cn ip proto port)
       (append_rules fam K8sNATServices [Some cn]) k"

definition ProgramServiceNodePort ::
    "TableFamily \<Rightarrow> string \<Rightarrow> Protocol \<Rightarrow> int \<Rightarrow> kernel \<Rightarrow> (error + nat list) \<times> kernel" where
  "ProgramServiceNodePort fam cn proto np k =
     drv_call (OpProgramServiceNodePort fam cn proto np)
       (append_rules fam K8sNATNodeports [Some cn]) k"

definition ProgramServiceExternalIP ::
    "TableFamily \<Rightarrow> string \<Rightarrow> string list \<Rightarrow> Protocol \<Rightarrow> int \<Rightarrow> nat \<Rightarrow> kernel
      \<Rightarrow> (error + nat list) \<times> kernel" where
  "ProgramServiceExternalIP fam cn ips proto port pos k =
     drv_call (OpProgramServiceExternalIP fam cn ips proto port pos)
       (insert_rules_after fam K8sNATServices pos (map (\<lambda>_. Some cn) ips)) k"

definition ProgramServiceLoadBalancerFW ::
    "TableFamily \<Rightarrow> string \<Rightarrow> kernel \<Rightarrow> (error + nat list) \<times> kernel" where
  "ProgramServiceLoadBalancerFW fam svcID k =
     drv_call (OpProgramServiceLoadBalancerFW fam svcID)
       (append_rules fam (K8sFwPrefix @ svcID) [Some (K8sSvcPrefix @ svcID)]) k"

definition ProgramServiceLoadBalancerIP ::
    "TableFamily \<Rightarrow> string \<Rightarrow> string list \<Rightarrow> Protocol \<Rightarrow> int \<Rightarrow> nat \<Rightarrow> kernel
      \<Rightarrow> (error + nat list) \<times> kernel" where
  "ProgramServiceLoadBalancerIP fam svcID ips proto port pos k =
     drv_call (OpProgramServiceLoadBalancerIP fam svcID ips proto port pos)
       (insert_rules_after fam K8sNATServices pos (map (\<lambda>_. Some (K8sFwPrefix @ svcID)) ips)) k"

definition ProgramServiceEndpoints ::
    "TableFamily \<Rightarrow> string \<Rightarrow> string list \<Rightarrow> nat list \<Rightarrow> kernel \<Rightarrow> (error + nat list) \<times> kernel" where
  "ProgramServiceEndpoints fam cn epchains previous k =
     drv_call (OpProgramServiceEndpoints fam cn epchains previous)
       (\<lambda>k. append_rules fam cn (map Some epchains) (remove_rules fam cn previous k)) k"

definition DeleteServiceRules ::
    "TableFamily \<Rightarrow> string \<Rightarrow> nat list \<Rightarrow> kernel \<Rightarrow> error option \<times> kernel" where
  "DeleteServiceRules fam cn handles k =
     err_of (drv_call (OpDeleteServiceRules fam cn handles) (\<lambda>k. ((), remove_rules fam cn handles k)) k)"

definition AddEndpointRules ::
    "TableFamily \<Rightarrow> string \<Rightarrow> string \<Rightarrow> Protocol \<Rightarrow> int \<Rightarrow> kernel \<Rightarrow> (error + nat list) \<times> kernel" where
  "AddEndpointRules fam cn ip proto port k =
     drv_call (OpAddEndpointRules fam cn ip proto port)
       (\<lambda>k. append_rules fam cn [None, None] (ensure_chain fam cn k)) k"

definition DeleteEndpointRules ::
    "TableFamily \<Rightarrow> string \<Rightarrow> nat list \<Rightarrow> kernel \<Rightarrow> error option \<times> kernel" where
  "DeleteEndpointRules fam cn handles k =
     err_of (drv_call (OpDeleteEndpointRules fam cn handles) (\<lambda>k. ((), remove_rules fam cn handles k)) k)"

definition DeleteChain :: "TableFamily \<Rightarrow> string \<Rightarrow> kernel \<Rightarrow> error option \<times> kernel" where
  "DeleteChain fam cn k =
     err_of (drv_call (OpDeleteChain fam cn) (\<lambda>k. ((), drop_chain fam cn k)) k)"

section \<open>Proxy state\<close>

text \<open>
  Modelled from the spec: the types \<^verbatim>\<open>BaseServiceInfo\<close>, \<^verbatim>\<open>serviceInfo\<close>, \<^verbatim>\<open>endpointsInfo\<close> and
  their constructors are declared in files of the repository that are not at hand. The
  records below carry the fields the spec lists for ServicePortInfo and EndpointInfo
  (section 3.2): the addresses and ports, the \<open>hasEndpoints\<close> flag (\<^verbatim>\<open>WithEndpoints\<close>), and
  per table family the owned chains with their rule handles. \<^verbatim>\<open>GetSvcChain\<close> gives a
  service its five chain entries, each with no rule handle yet.
\<close>

datatype SVCChain = SVCChain (ServiceID: string) (Chain: "(string \<times> nat list) list")

record serviceInfo =
  si_clusterIP :: "string option"
  si_port :: int
  si_protocol :: Protocol
  si_nodePort :: int
  si_externalIPs :: "string list"
  si_loadBalancerIPs :: "string list"
  si_Chains :: "(TableFamily \<times> SVCChain) list"
  si_WithEndpoints :: bool

datatype endpointsInfo =
  endpointsInfo (ei_Family: IPFamily) (ei_Protocol: Protocol) (ei_IP: string) (ei_Port: int)
    (ei_IsLocal: bool) (ei_Rule: "(TableFamily \<times> string \<times> nat list) list")

record proxy =
  hostname :: string
  nfti :: kernel
  serviceMap :: "ServicePortName \<Rightarrow> serviceInfo option"
  endpointsMap :: "ServicePortName \<Rightarrow> endpointsInfo list option"
  epslCache :: "string \<times> string \<Rightarrow> EndpointSlice option"
  klog :: "logmsg list"

definition newBaseServiceInfo :: "ServicePort \<Rightarrow> Service \<Rightarrow> serviceInfo" where
  "newBaseServiceInfo servicePort svc =
     \<lparr>si_clusterIP = ParseIP (svc_ClusterIP svc),
      si_port = sp_Port servicePort,
      si_protocol = sp_Protocol servicePort,
      si_nodePort = sp_NodePort servicePort,
      si_externalIPs = svc_ExternalIPs svc,
      si_loadBalancerIPs = svc_LoadBalancerIPs svc,
      si_Chains = [],
      si_WithEndpoints = False\<rparr>"

definition si_String :: "serviceInfo \<Rightarrow> string" where
  "si_String info = IP_String (si_clusterIP info) @ '':'' @ Itoa (si_port info) @ ''/'' @ si_protocol info"

definition servicePortSvcID :: "string \<Rightarrow> string \<Rightarrow> string \<Rightarrow> string" where
  "servicePortSvcID servicePortName protocol service =
     take 16 (base32_encode (sha256 (string_bytes (servicePortName @ protocol @ service))))"

definition GetSvcChain :: "TableFamily \<Rightarrow> string \<Rightarrow> (TableFamily \<times> SVCChain) list" where
  "GetSvcChain tableFamily svcID =
     [(tableFamily,
       SVCChain svcID
         [(K8sNATServices, []), (K8sNATNodeports, []), (K8sSvcPrefix @ svcID, []),
          (K8sFwPrefix @ svcID, []), (K8sXlbPrefix @ svcID, [])])]"

definition newBaseEndpointInfo :: "IPFamily \<Rightarrow> Protocol \<Rightarrow> string \<Rightarrow> int \<Rightarrow> bool \<Rightarrow> endpointsInfo" where
  "newBaseEndpointInfo ipFamily protocol ip port isLocal =
     endpointsInfo ipFamily protocol ip port isLocal []"

definition ei_Endpoint :: "endpointsInfo \<Rightarrow> string" where
  "ei_Endpoint info = JoinHostPort (ei_IP info) (Itoa (ei_Port info))"

definition Equal :: "endpointsInfo \<Rightarrow> endpointsInfo \<Rightarrow> bool" where
  "Equal a b \<longleftrightarrow>
     ei_Family a = ei_Family b \<and> ei_Protocol a = ei_Protocol b \<and> ei_IP a = ei_IP b
       \<and> ei_Port a = ei_Port b \<and> ei_IsLocal a = ei_IsLocal b"

text \<open>Modelled from the spec: \<^verbatim>\<open>ShouldSkipService\<close> is the predicate of the Kubernetes
  libraries that the spec describes as skipping headless and ExternalName services.\<close>

definition ShouldSkipService :: "Service \<Rightarrow> bool" where
  "ShouldSkipService svc \<longleftrightarrow>
     svc_ClusterIP svc = ''None'' \<or> svc_ClusterIP svc = [] \<or> svc_Type svc = ''ExternalName''"

text \<open>Reading and writing \<^verbatim>\<open>svcnft.Chains[family].Chain[name].RuleID\<close>. Both maps hold
  pointers: an absent entry is a nil pointer, and going through it panics.\<close>

definition get_RuleID :: "serviceInfo \<Rightarrow> TableFamily \<Rightarrow> string \<Rightarrow> nat list option" where
  "get_RuleID info fam cn =
     (case map_of (si_Chains info) fam of
        None \<Rightarrow> None
      | Some svcChain \<Rightarrow> map_of (Chain svcChain) cn)"

definition set_RuleID :: "TableFamily \<Rightarrow> string \<Rightarrow> nat list \<Rightarrow> serviceInfo \<Rightarrow> serviceInfo option" where
  "set_RuleID fam cn ids info =
     (case map_of (si_Chains info) fam of
        None \<Rightarrow> None
      | Some svcChain \<Rightarrow>
          (case map_of (Chain svcChain) cn of
             None \<Rightarrow> None
           | Some _ \<Rightarrow>
               Some (info\<lparr>si_Chains :=
                 AList.update fam (SVCChain (ServiceID svcChain) (AList.update cn ids (Chain svcChain)))
                   (si_Chains info)\<rparr>)))"

text \<open>Control flow. A function that returns an \<^verbatim>\<open>error\<close> gives \<open>error option\<close>; a panic
  travels as the error \<open>Panic\<close> and is never caught. A handler that returns nothing gives
  \<open>panic option\<close>. Only the messages logged unconditionally (\<^verbatim>\<open>klog.Infof\<close>,
  \<^verbatim>\<open>Warningf\<close>, \<^verbatim>\<open>Errorf\<close>) are kept; those behind a verbosity level and the timing
  message are left out.\<close>

definition logf :: "logmsg \<Rightarrow> proxy \<Rightarrow> proxy" where
  "logf m p = p\<lparr>klog := klog p @ [m]\<rparr>"

definition on_nfti :: "(kernel \<Rightarrow> 'r \<times> kernel) \<Rightarrow> proxy \<Rightarrow> 'r \<times> proxy" where
  "on_nfti f p = (case f (nfti p) of (r, k) \<Rightarrow> (r, p\<lparr>nfti := k\<rparr>))"

definition catch_err ::
    "error option \<times> proxy \<Rightarrow> (error \<Rightarrow> proxy \<Rightarrow> error option \<times> proxy)
      \<Rightarrow> (proxy \<Rightarrow> error option \<times> proxy) \<Rightarrow> error option \<times> proxy" where
  "catch_err r on_error continue =
     (case r of
        (Some (Panic pn), p) \<Rightarrow> (Some (Panic pn), p)
      | (Some e, p) \<Rightarrow> on_error e p
      | (None, p) \<Rightarrow> continue p)"

definition catch_val ::
    "(error + 'a) \<times> proxy \<Rightarrow> (error \<Rightarrow> proxy \<Rightarrow> error option \<times> proxy)
      \<Rightarrow> ('a \<Rightarrow> proxy \<Rightarrow> error option \<times> proxy) \<Rightarrow> error option \<times> proxy" where
  "catch_val r on_error continue =
     (case r of
        (Inl (Panic pn), p) \<Rightarrow> (Some (Panic pn), p)
      | (Inl e, p) \<Rightarrow> on_error e p
      | (Inr v, p) \<Rightarrow> continue v p)"

definition panic_of :: "error option \<times> proxy \<Rightarrow> panic option \<times> proxy" where
  "panic_of r = (case r of (Some (Panic pn), p) \<Rightarrow> (Some pn, p) | (_, p) \<Rightarrow> (None, p))"

definition eps_of :: "proxy \<Rightarrow> ServicePortName \<Rightarrow> endpointsInfo list" where
  "eps_of p svcPortName = (case endpointsMap p svcPortName of None \<Rightarrow> [] | Some eps \<Rightarrow> eps)"

section \<open>Services (proxy.go)\<close>

fun addToNoEndpoints_each ::
    "TableFamily \<Rightarrow> string \<Rightarrow> 16 word \<Rightarrow> string list \<Rightarrow> proxy \<Rightarrow> error option \<times> proxy" where
  "addToNoEndpoints_each fam proto port [] p = (None, p)"
| "addToNoEndpoints_each fam proto port (ip # ips) p =
     (case on_nfti (AddToNoEndpointsList fam proto ip port) p of
        (Some e, p') \<Rightarrow> (Some e, p')
      | (None, p') \<Rightarrow> addToNoEndpoints_each fam proto port ips p')"

definition addToNoEndpointsList :: "serviceInfo \<Rightarrow> TableFamily \<Rightarrow> proxy \<Rightarrow> error option \<times> proxy" where
  "addToNoEndpointsList servicePort tableFamily p =
     (let proto = si_protocol servicePort;
          port = (word_of_int (si_port servicePort) :: 16 word)
      in case on_nfti (AddToNoEndpointsList tableFamily proto (IP_String (si_clusterIP servicePort)) port) p of
           (Some e, p1) \<Rightarrow> (Some e, p1)
         | (None, p1) \<Rightarrow>
             (case addToNoEndpoints_each tableFamily proto port (si_externalIPs servicePort) p1 of
                (Some e, p2) \<Rightarrow> (Some e, p2)
              | (None, p2) \<Rightarrow>
                  addToNoEndpoints_each tableFamily proto port (si_loadBalancerIPs servicePort) p2))"

fun removeFromNoEndpoints_each ::
    "TableFamily \<Rightarrow> string \<Rightarrow> 16 word \<Rightarrow> string list \<Rightarrow> proxy \<Rightarrow> error option \<times> proxy" where
  "removeFromNoEndpoints_each fam proto port [] p = (None, p)"
| "removeFromNoEndpoints_each fam proto port (ip # ips) p =
     (case on_nfti (RemoveFromNoEndpointsList fam proto ip port) p of
        (Some e, p') \<Rightarrow> (Some e, p')
      | (None, p') \<Rightarrow> removeFromNoEndpoints_each fam proto port ips p')"

definition removeFromNoEndpointsList :: "serviceInfo \<Rightarrow> TableFamily \<Rightarrow> proxy \<Rightarrow> error option \<times> proxy" where
  "removeFromNoEndpointsList servicePort tableFamily p =
     (let proto = si_protocol servicePort;
          port = (word_of_int (si_port servicePort) :: 16 word)
      in case on_nfti (RemoveFromNoEndpointsList tableFamily proto (IP_String (si_clusterIP servicePort)) port) p of
           (Some e, p1) \<Rightarrow> (Some e, p1)
         | (None, p1) \<Rightarrow>
             (case removeFromNoEndpoints_each tableFamily proto port (si_externalIPs servicePort) p1 of
                (Some e, p2) \<Rightarrow> (Some e, p2)
              | (None, p2) \<Rightarrow>
                  removeFromNoEndpoints_each tableFamily proto port (si_loadBalancerIPs servicePort) p2))"

text \<open>\<^verbatim>\<open>addService\<close>: the key check, the service chains, then the four groups of rules in
  the order of the source, the no-endpoints set, and at last the entry in \<^verbatim>\<open>serviceMap\<close>.
  An error of the driver is logged and ends the function (\<open>None\<close>: nothing is returned to
  the caller); only \<^verbatim>\<open>AddServiceChains\<close> is logged and passed over.\<close>

definition addService_noEndpoints ::
    "ServicePortName \<Rightarrow> TableFamily \<Rightarrow> serviceInfo \<Rightarrow> proxy \<Rightarrow> error option \<times> proxy" where
  "addService_noEndpoints svcPortName tableFamily baseSvcInfo p =
     (if length (eps_of p svcPortName) = 0 then
        catch_err (addToNoEndpointsList baseSvcInfo tableFamily p)
          (\<lambda>e p'. (None, logf (Errorf ''failed to add %s to No Endpoints Set with error: %+v''
                                  [spn_String svcPortName]) p'))
          (\<lambda>p'. (None, p'\<lparr>serviceMap := (serviceMap p')(svcPortName \<mapsto> baseSvcInfo)\<rparr>))
      else (None, p\<lparr>serviceMap := (serviceMap p)(svcPortName \<mapsto> baseSvcInfo)\<rparr>))"

definition addService_loadBalancerIPs ::
    "ServicePortName \<Rightarrow> TableFamily \<Rightarrow> string \<Rightarrow> nat \<Rightarrow> serviceInfo \<Rightarrow> proxy \<Rightarrow> error option \<times> proxy" where
  "addService_loadBalancerIPs svcPortName tableFamily svcID lastSvcRulePosition baseSvcInfo p =
     (if length (si_loadBalancerIPs baseSvcInfo) \<noteq> 0 then
        catch_val (on_nfti (ProgramServiceLoadBalancerFW tableFamily svcID) p)
          (\<lambda>e p'. (None, logf (Errorf ''Failed to program Service %s loadbalancer FW rules with error: %+v''
                                  [spn_String svcPortName]) p'))
          (\<lambda>ids p'.
             case set_RuleID tableFamily (K8sFwPrefix @ svcID) ids baseSvcInfo of
               None \<Rightarrow> (Some (Panic NilDereference), p')
             | Some info1 \<Rightarrow>
                 catch_val (on_nfti (ProgramServiceLoadBalancerIP tableFamily svcID
                              (si_loadBalancerIPs info1) (si_protocol info1) (si_port info1)
                              lastSvcRulePosition) p')
                   (\<lambda>e p''. (None, logf (Errorf ''Failed to program Service %s loadbalancer IP rule with error: %+v''
                                            [spn_String svcPortName]) p''))
                   (\<lambda>ids p''.
                      case get_RuleID info1 tableFamily K8sNATServices of
                        None \<Rightarrow> (Some (Panic NilDereference), p'')
                      | Some old \<Rightarrow>
                          (case set_RuleID tableFamily K8sNATServices (old @ ids) info1 of
                             None \<Rightarrow> (Some (Panic NilDereference), p'')
                           | Some info2 \<Rightarrow> addService_noEndpoints svcPortName tableFamily info2 p'')))
      else addService_noEndpoints svcPortName tableFamily baseSvcInfo p)"

definition addService_externalIPs ::
    "ServicePortName \<Rightarrow> TableFamily \<Rightarrow> string \<Rightarrow> string \<Rightarrow> nat \<Rightarrow> serviceInfo \<Rightarrow> proxy
      \<Rightarrow> error option \<times> proxy" where
  "addService_externalIPs svcPortName tableFamily svcID cn lastSvcRulePosition baseSvcInfo p =
     (if length (si_externalIPs baseSvcInfo) \<noteq> 0 then
        catch_val (on_nfti (ProgramServiceExternalIP tableFamily cn (si_externalIPs baseSvcInfo)
                     (si_protocol baseSvcInfo) (si_port baseSvcInfo) lastSvcRulePosition) p)
          (\<lambda>e p'. (None, logf (Errorf ''Failed to program Service %s external IPs rule with error: %+v''
                                  [spn_String svcPortName]) p'))
          (\<lambda>ids p'.
             case get_RuleID baseSvcInfo tableFamily K8sNATServices of
               None \<Rightarrow> (Some (Panic NilDereference), p')
             | Some old \<Rightarrow>
                 (case set_RuleID tableFamily K8sNATServices (old @ ids) baseSvcInfo of
                    None \<Rightarrow> (Some (Panic NilDereference), p')
                  | Some info1 \<Rightarrow>
                      if ids = [] then (Some (Panic IndexOutOfRange), p')
                      else addService_loadBalancerIPs svcPortName tableFamily svcID (last ids) info1 p'))
      else addService_loadBalancerIPs svcPortName tableFamily svcID lastSvcRulePosition baseSvcInfo p)"

definition addService_nodePort ::
    "ServicePortName \<Rightarrow> TableFamily \<Rightarrow> string \<Rightarrow> string \<Rightarrow> nat \<Rightarrow> serviceInfo \<Rightarrow> proxy
      \<Rightarrow> error option \<times> proxy" where
  "addService_nodePort svcPortName tableFamily svcID cn lastSvcRulePosition baseSvcInfo p =
     (if si_nodePort baseSvcInfo \<noteq> 0 then
        catch_val (on_nfti (ProgramServiceNodePort tableFamily cn (si_protocol baseSvcInfo)
                     (si_nodePort baseSvcInfo)) p)
          (\<lambda>e p'. (None, logf (Errorf ''Failed to program Service %s Nodeport rule with error: %+v''
                                  [spn_String svcPortName]) p'))
          (\<lambda>ids p'.
             case set_RuleID tableFamily K8sNATNodeports ids baseSvcInfo of
               None \<Rightarrow> (Some (Panic NilDereference), p')
             | Some info1 \<Rightarrow>
                 addService_externalIPs svcPortName tableFamily svcID cn lastSvcRulePosition info1 p')
      else addService_externalIPs svcPortName tableFamily svcID cn lastSvcRulePosition baseSvcInfo p)"

definition addService_clusterIP ::
    "ServicePortName \<Rightarrow> TableFamily \<Rightarrow> string \<Rightarrow> string \<Rightarrow> serviceInfo \<Rightarrow> proxy
      \<Rightarrow> error option \<times> proxy" where
  "addService_clusterIP svcPortName tableFamily svcID cn baseSvcInfo p =
     (case si_clusterIP baseSvcInfo of
        None \<Rightarrow> addService_nodePort svcPortName tableFamily svcID cn 0 baseSvcInfo p
      | Some clip \<Rightarrow>
          catch_val (on_nfti (ProgramServiceClusterIP tableFamily cn clip (si_protocol baseSvcInfo)
                       (si_port baseSvcInfo)) p)
            (\<lambda>e p'. (None, logf (Errorf ''Failed to program Service %s cluster IP rule with error: %+v''
                                    [spn_String svcPortName]) p'))
            (\<lambda>ids p'.
               case set_RuleID tableFamily K8sNATServices ids baseSvcInfo of
                 None \<Rightarrow> (Some (Panic NilDereference), p')
               | Some info1 \<Rightarrow>
                   if ids = [] then (Some (Panic IndexOutOfRange), p')
                   else addService_nodePort svcPortName tableFamily svcID cn (last ids) info1 p'))"

definition addService ::
    "ServicePortName \<Rightarrow> ServicePort \<Rightarrow> Service \<Rightarrow> serviceInfo \<Rightarrow> proxy \<Rightarrow> panic option \<times> proxy" where
  "addService svcPortName servicePort svc baseSvcInfo p =
     (if serviceMap p svcPortName \<noteq> None then
        (None, logf (Warningf ''Service port name %+v already exists'' [spn_String svcPortName]) p)
      else
        let tableFamily = (if IsIPv6String (svc_ClusterIP svc) then TableFamilyIPv6 else TableFamilyIPv4);
            svcID = servicePortSvcID (spn_String svcPortName) (sp_Protocol servicePort) (si_String baseSvcInfo);
            info0 = baseSvcInfo\<lparr>si_Chains := GetSvcChain tableFamily svcID, si_WithEndpoints := False\<rparr>;
            p0 = (case on_nfti (AddServiceChains tableFamily svcID) p of
                    (Some e, p') \<Rightarrow>
                      logf (Errorf ''failed to add service port %s chains with error: %+v''
                              [spn_String svcPortName]) p'
                  | (None, p') \<Rightarrow> p');
            cn = K8sSvcPrefix @ svcID
        in panic_of (addService_clusterIP svcPortName tableFamily svcID cn info0 p0))"

definition deref :: "'a option \<Rightarrow> panic + 'a" where
  "deref ptr = (case ptr of None \<Rightarrow> Inl NilDereference | Some v \<Rightarrow> Inr v)"

fun AddService_ports :: "Service \<Rightarrow> ServicePort list \<Rightarrow> proxy \<Rightarrow> panic option \<times> proxy" where
  "AddService_ports svc [] p = (None, p)"
| "AddService_ports svc (servicePort # rest) p =
     (let svcPortName = getSvcPortName (svc_Name svc) (svc_Namespace svc) (sp_Name servicePort)
                          (sp_Protocol servicePort);
          baseSvcInfo = newBaseServiceInfo servicePort svc
      in case addService svcPortName servicePort svc baseSvcInfo p of
           (Some pn, p') \<Rightarrow> (Some pn, p')
         | (None, p') \<Rightarrow> AddService_ports svc rest p')"

text \<open>\<^verbatim>\<open>AddService\<close>: the first statement formats \<^verbatim>\<open>svc.Namespace\<close> and \<^verbatim>\<open>svc.Name\<close> into the
  log message, and only the second one compares \<^verbatim>\<open>svc\<close> with nil.\<close>

definition AddService :: "Service option \<Rightarrow> proxy \<Rightarrow> panic option \<times> proxy" where
  "AddService svc p =
     (case deref svc of
        Inl pn \<Rightarrow> (Some pn, p)
      | Inr s \<Rightarrow>
          let p0 = logf (Infof ''AddService for a service %s/%s'' [svc_Namespace s, svc_Name s]) p
          in if svc = None then (None, p0)
             else if ShouldSkipService s then (None, p0)
             else AddService_ports s (svc_Ports s) p0)"

text \<open>\<^verbatim>\<open>deleteService\<close> ranges over a Go map of chains, whose order is not fixed; the model
  takes the entries in the order \<^verbatim>\<open>GetSvcChain\<close> made them.\<close>

fun deleteService_rules ::
    "ServicePortName \<Rightarrow> TableFamily \<Rightarrow> (string \<times> nat list) list \<Rightarrow> proxy \<Rightarrow> proxy" where
  "deleteService_rules svcPortName tableFamily [] p = p"
| "deleteService_rules svcPortName tableFamily ((chain, ruleID) # rest) p =
     (if length ruleID \<noteq> 0 then
        (case on_nfti (DeleteServiceRules tableFamily chain ruleID) p of
           (Some e, p') \<Rightarrow>
             deleteService_rules svcPortName tableFamily rest
               (logf (Errorf ''failed to delete rules chain: %s service port name: %s with error: %+v''
                        [chain, spn_String svcPortName]) p')
         | (None, p') \<Rightarrow> deleteService_rules svcPortName tableFamily rest p')
      else deleteService_rules svcPortName tableFamily rest p)"

definition deleteService ::
    "ServicePortName \<Rightarrow> ServicePort \<Rightarrow> Service \<Rightarrow> proxy \<Rightarrow> panic option \<times> proxy" where
  "deleteService svcPortName servicePort svc p =
     (case serviceMap p svcPortName of
        None \<Rightarrow>
          (None, logf (Warningf ''Service port name %+v does not exist'' [spn_String svcPortName]) p)
      | Some baseInfo \<Rightarrow>
          let tableFamily = snd (getIPFamily (IP_String (si_clusterIP baseInfo)));
              p1 = (if \<not> si_WithEndpoints baseInfo then
                      (case removeFromNoEndpointsList baseInfo tableFamily p of
                         (Some e, p') \<Rightarrow>
                           logf (Errorf ''failed to remove %s from No Endpoints Set with error: %+v''
                                   [spn_String svcPortName]) p'
                       | (None, p') \<Rightarrow> p')
                    else p)
          in (case map_of (si_Chains baseInfo) tableFamily of
                None \<Rightarrow> (Some NilDereference, p1)
              | Some svcChain \<Rightarrow>
                  let p2 = deleteService_rules svcPortName tableFamily (Chain svcChain) p1;
                      p3 = (case on_nfti (DeleteServiceChains tableFamily (ServiceID svcChain)) p2 of
                              (Some e, p') \<Rightarrow>
                                logf (Errorf ''failed to delete chains for service port name: %s with error: %+v''
                                        [spn_String svcPortName]) p'
                            | (None, p') \<Rightarrow> p')
                  in (None, p3\<lparr>serviceMap := (serviceMap p3)(svcPortName := None)\<rparr>)))"

fun DeleteService_ports :: "Service \<Rightarrow> ServicePort list \<Rightarrow> proxy \<Rightarrow> panic option \<times> proxy" where
  "DeleteService_ports svc [] p = (None, p)"
| "DeleteService_ports svc (servicePort # rest) p =
     (let svcPortName = getSvcPortName (svc_Name svc) (svc_Namespace svc) (sp_Name servicePort)
                          (sp_Protocol servicePort)
      in case deleteService svcPortName servicePort svc p of
           (Some pn, p') \<Rightarrow> (Some pn, p')
         | (None, p') \<Rightarrow> DeleteService_ports svc rest p')"

definition DeleteService :: "Service option \<Rightarrow> proxy \<Rightarrow> panic option \<times> proxy" where
  "DeleteService svc p =
     (case deref svc of
        Inl pn \<Rightarrow> (Some pn, p)
      | Inr s \<Rightarrow>
          let p0 = logf (Infof ''DeleteService for a service %s/%s'' [svc_Namespace s, svc_Name s]) p
          in if svc = None then (None, p0)
             else DeleteService_ports s (svc_Ports s) p0)"

definition UpdateService :: "Service \<Rightarrow> Service \<Rightarrow> proxy \<Rightarrow> panic option \<times> proxy" where
  "UpdateService svcOld svcNew p =
     (None, logf (Infof ''UpdateService for a service %s/%s'' [svc_Namespace svcNew, svc_Name svcNew]) p)"

section \<open>Endpoints (proxy.go)\<close>

fun ep_chains :: "TableFamily \<Rightarrow> endpointsInfo list \<Rightarrow> panic + string list" where
  "ep_chains tableFamily [] = Inr []"
| "ep_chains tableFamily (ep # eps) =
     (case map_of (ei_Rule ep) tableFamily of
        None \<Rightarrow> Inl NilDereference
      | Some rule \<Rightarrow>
          (case ep_chains tableFamily eps of
             Inl pn \<Rightarrow> Inl pn
           | Inr cs \<Rightarrow> Inr (fst rule # cs)))"

definition getServicePortEndpointChains ::
    "ServicePortName \<Rightarrow> TableFamily \<Rightarrow> proxy \<Rightarrow> panic + string list" where
  "getServicePortEndpointChains svcPortName tableFamily p = ep_chains tableFamily (eps_of p svcPortName)"

definition store_RuleID :: "ServicePortName \<Rightarrow> serviceInfo \<Rightarrow> TableFamily \<Rightarrow> string \<Rightarrow> nat list \<Rightarrow> proxy \<Rightarrow> proxy" where
  "store_RuleID svcPortName entry tableFamily cn rules p =
     (case set_RuleID tableFamily cn rules entry of
        None \<Rightarrow> p
      | Some entry' \<Rightarrow> p\<lparr>serviceMap := (serviceMap p)(svcPortName \<mapsto> entry')\<rparr>)"

definition UpdateServiceChain :: "ServicePortName \<Rightarrow> TableFamily \<Rightarrow> proxy \<Rightarrow> error option \<times> proxy" where
  "UpdateServiceChain svcPortName tableFamily p =
     (case serviceMap p svcPortName of
        None \<Rightarrow> (None, p)
      | Some svc \<Rightarrow>
          (let (entry, p1) =
                (if \<not> si_WithEndpoints svc then
                   (case removeFromNoEndpointsList svc tableFamily p of
                      (Some e, p') \<Rightarrow>
                        (svc, logf (Errorf ''failed to remove %s from No Endpoints Set with error: %+v''
                                      [spn_String svcPortName]) p')
                    | (None, p') \<Rightarrow>
                        (svc\<lparr>si_WithEndpoints := True\<rparr>,
                         p'\<lparr>serviceMap := (serviceMap p')(svcPortName \<mapsto> svc\<lparr>si_WithEndpoints := True\<rparr>)\<rparr>))
                 else (svc, p))
           in (case getServicePortEndpointChains svcPortName tableFamily p1 of
                 Inl pn \<Rightarrow> (Some (Panic pn), p1)
               | Inr epsChains \<Rightarrow>
                   (case map_of (si_Chains entry) tableFamily of
                      None \<Rightarrow> (Some (Panic NilDereference), p1)
                    | Some svcChain \<Rightarrow>
                        (case map_of (Chain svcChain) (K8sSvcPrefix @ ServiceID svcChain) of
                           None \<Rightarrow> (Some (Panic NilDereference), p1)
                         | Some ruleID \<Rightarrow>
                             (if length epsChains \<noteq> 0 then
                                catch_val (on_nfti (ProgramServiceEndpoints tableFamily
                                             (K8sSvcPrefix @ ServiceID svcChain) epsChains ruleID) p1)
                                  (\<lambda>e p'. (Some e,
                                     logf (Errorf ''failed to program endpoints rules for service %s with error: %+v''
                                             [spn_String svcPortName]) p'))
                                  (\<lambda>rules p'. (None,
                                     store_RuleID svcPortName entry tableFamily
                                       (K8sSvcPrefix @ ServiceID svcChain) rules p'))
                              else
                                catch_err (on_nfti (DeleteServiceRules tableFamily
                                             (K8sSvcPrefix @ ServiceID svcChain) ruleID) p1)
                                  (\<lambda>e p'. (Some e,
                                     logf (Errorf ''failed to remove rule for service %s with error: %+v''
                                             [spn_String svcPortName]) p'))
                                  (\<lambda>p'. (None,
                                     store_RuleID svcPortName entry tableFamily
                                       (K8sSvcPrefix @ ServiceID svcChain) [] p'))))))))"

datatype epKey = epKey (key_proto: Protocol) (key_ipaddr: string) (key_port: int)

definition addEndpointRule ::
    "TableFamily \<Rightarrow> string \<Rightarrow> ServicePortName \<Rightarrow> epKey \<Rightarrow> proxy \<Rightarrow> (error + nat list) \<times> proxy" where
  "addEndpointRule tableFamily cn svcPortName key p =
     on_nfti (AddEndpointRules tableFamily cn (key_ipaddr key) (key_proto key) (key_port key)) p"

definition addEndpoint ::
    "ServicePortName \<Rightarrow> EndpointAddress \<Rightarrow> EndpointPort \<Rightarrow> proxy \<Rightarrow> error option \<times> proxy" where
  "addEndpoint svcPortName addr port p =
     (let isLocal = (ea_NodeName addr = Some (hostname p));
          ipFamily = fst (getIPFamily (ea_IP addr));
          ipTableFamily = snd (getIPFamily (ea_IP addr));
          baseEndpointInfo = newBaseEndpointInfo ipFamily (ep_Protocol port) (ea_IP addr) (ep_Port port) isLocal
      in case servicePortEndpointChainName (spn_String svcPortName) (ep_Protocol port)
                (ei_Endpoint baseEndpointInfo) of
           Inl pn \<Rightarrow> (Some (Panic pn), p)
         | Inr cn \<Rightarrow>
             catch_val (addEndpointRule ipTableFamily cn svcPortName
                          (epKey (ep_Protocol port) (ea_IP addr) (ep_Port port)) p)
               (\<lambda>e p'. (Some e, p'))
               (\<lambda>ruleIDs p'.
                  let info = endpointsInfo ipFamily (ep_Protocol port) (ea_IP addr) (ep_Port port) isLocal
                               [(ipTableFamily, cn, ruleIDs)];
                      p1 = p'\<lparr>endpointsMap := (endpointsMap p')(svcPortName \<mapsto> eps_of p' svcPortName @ [info])\<rparr>
                  in catch_err (UpdateServiceChain svcPortName ipTableFamily p1)
                       (\<lambda>e p2. (Some e,
                          logf (Errorf ''failed to update service %s chain with endpoint rule with error: %+v''
                                  [spn_String svcPortName]) p2))
                       (\<lambda>p2. (None, p2))))"

definition deleteEndpointRules ::
    "TableFamily \<Rightarrow> string \<Rightarrow> nat list \<Rightarrow> ServicePortName \<Rightarrow> proxy \<Rightarrow> error option \<times> proxy" where
  "deleteEndpointRules ipTableFamily cn ruleID svcPortName p =
     catch_err (UpdateServiceChain svcPortName ipTableFamily p)
       (\<lambda>e p1. (Some e,
          logf (Infof ''failed to update service %s chain with endpoint rule with error: %+v''
                  [spn_String svcPortName]) p1))
       (\<lambda>p1.
          catch_err (on_nfti (DeleteEndpointRules ipTableFamily cn ruleID) p1)
            (\<lambda>e p2. (Some e, p2))
            (\<lambda>p2.
               let p3 = (case on_nfti (DeleteChain ipTableFamily cn) p2 of
                           (Some e, p') \<Rightarrow>
                             logf (Errorf ''failed to delete endpoint chain: %s with error: %+v'' [cn]) p'
                         | (None, p') \<Rightarrow> p')
               in if length (eps_of p3 svcPortName) = 0 then
                    let p4 = logf (Infof ''no more endpoints found for %s'' [spn_String svcPortName]) p3;
                        p5 = (case serviceMap p4 svcPortName of
                                None \<Rightarrow> p4
                              | Some svc \<Rightarrow>
                                  let tableFamily = snd (getIPFamily (IP_String (si_clusterIP svc)))
                                  in (case addToNoEndpointsList svc tableFamily p4 of
                                        (Some e, p') \<Rightarrow>
                                          logf (Errorf ''failed to add %s to No Endpoints Set with error: %+v''
                                                  [spn_String svcPortName]) p'
                                      | (None, p') \<Rightarrow>
                                          p'\<lparr>serviceMap := (serviceMap p')(svcPortName \<mapsto>
                                                svc\<lparr>si_WithEndpoints := False\<rparr>)\<rparr>))
                    in (None, p5\<lparr>endpointsMap := (endpointsMap p5)(svcPortName := None)\<rparr>)
                  else (None, p3)))"

text \<open>
  \<^verbatim>\<open>deleteEndpoint\<close> ranges over the slice \<^verbatim>\<open>eps\<close> it is given, and on a match stores
  \<^verbatim>\<open>append(eps[:i], eps[i+1:]...)\<close> in the map. The append writes into the array that
  \<^verbatim>\<open>eps\<close> itself views: the elements after \<open>i\<close> move one place down and the last one stays
  where it was. The loop does not stop at a match; it goes on over the same \<open>length eps\<close>
  places of the changed array, so the function also gives back what the caller's
  \<^verbatim>\<open>eps\<close> views afterwards.
\<close>

definition splice_array :: "nat \<Rightarrow> 'a list \<Rightarrow> 'a list" where
  "splice_array i eps = take i eps @ drop (Suc i) eps @ [last eps]"

lemma length_splice_array: "i < length eps \<Longrightarrow> length (splice_array i eps) = length eps"
  by (simp add: splice_array_def)

function deleteEndpoint_loop ::
    "ServicePortName \<Rightarrow> TableFamily \<Rightarrow> endpointsInfo \<Rightarrow> nat \<Rightarrow> endpointsInfo list \<Rightarrow> proxy
      \<Rightarrow> panic option \<times> endpointsInfo list \<times> proxy" where
  "deleteEndpoint_loop svcPortName ipTableFamily ep2d i eps p =
     (if length eps \<le> i then (None, eps, p)
      else if Equal (eps ! i) ep2d then
        (let eps' = splice_array i eps;
             p1 = p\<lparr>endpointsMap := (endpointsMap p)(svcPortName \<mapsto> take i eps @ drop (Suc i) eps)\<rparr>
         in (case map_of (ei_Rule (eps ! i)) ipTableFamily of
               None \<Rightarrow> (Some NilDereference, eps', p1)
             | Some rule \<Rightarrow>
                 (case deleteEndpointRules ipTableFamily (fst rule) (snd rule) svcPortName p1 of
                    (Some (Panic pn), p2) \<Rightarrow> (Some pn, eps', p2)
                  | (Some e, p2) \<Rightarrow> (None, eps', p2)
                  | (None, p2) \<Rightarrow> deleteEndpoint_loop svcPortName ipTableFamily ep2d (Suc i) eps' p2)))
      else deleteEndpoint_loop svcPortName ipTableFamily ep2d (Suc i) eps p)"
  by pat_completeness auto
termination
  by (relation "measure (\<lambda>(svcPortName, ipTableFamily, ep2d, i, eps, p). length eps - i)")
     (auto simp: length_splice_array)

declare deleteEndpoint_loop.simps [simp del]

definition deleteEndpoint ::
    "ServicePortName \<Rightarrow> EndpointAddress \<Rightarrow> EndpointPort \<Rightarrow> endpointsInfo list \<Rightarrow> proxy
      \<Rightarrow> panic option \<times> endpointsInfo list \<times> proxy" where
  "deleteEndpoint svcPortName addr port eps p =
     (let isLocal = (ea_NodeName addr = Some (hostname p));
          ipFamily = fst (getIPFamily (ea_IP addr));
          ipTableFamily = snd (getIPFamily (ea_IP addr));
          ep2d = newBaseEndpointInfo ipFamily (ep_Protocol port) (ea_IP addr) (ep_Port port) isLocal
      in deleteEndpoint_loop svcPortName ipTableFamily ep2d 0 eps p)"

definition isPortInSubset :: "EndpointSubset list \<Rightarrow> EndpointPort \<Rightarrow> bool" where
  "isPortInSubset subsets port =
     list_ex (\<lambda>s. list_ex (\<lambda>p. ep_Name p = ep_Name port \<and> ep_Port p = ep_Port port
                                  \<and> ep_Protocol p = ep_Protocol port) (ss_Ports s)) subsets"

fun UpdateEndpoints_addAddresses ::
    "Endpoints \<Rightarrow> Endpoints \<Rightarrow> ServicePortName \<Rightarrow> EndpointPort \<Rightarrow> EndpointAddress list \<Rightarrow> proxy
      \<Rightarrow> panic option \<times> proxy" where
  "UpdateEndpoints_addAddresses epOld epNew svcPortName port [] p = (None, p)"
| "UpdateEndpoints_addAddresses epOld epNew svcPortName port (addr # addrs) p =
     (if ea_IP addr = [] then
        UpdateEndpoints_addAddresses epOld epNew svcPortName port addrs
          (logf (Warningf ''ignoring invalid endpoint port %s with empty host'' [ep_Name port]) p)
      else if \<not> isPortInSubset (eps_Subsets epOld) port then
        (case addEndpoint svcPortName addr port p of
           (Some (Panic pn), p') \<Rightarrow> (Some pn, p')
         | (Some e, p') \<Rightarrow>
             UpdateEndpoints_addAddresses epOld epNew svcPortName port addrs
               (logf (Errorf ''Update endpoint: %s/%s failed with error: %+v''
                        [eps_Namespace epNew, eps_Name epNew]) p')
         | (None, p') \<Rightarrow> UpdateEndpoints_addAddresses epOld epNew svcPortName port addrs p')
      else UpdateEndpoints_addAddresses epOld epNew svcPortName port addrs p)"

fun UpdateEndpoints_addPorts ::
    "Endpoints \<Rightarrow> Endpoints \<Rightarrow> EndpointAddress list \<Rightarrow> EndpointPort list \<Rightarrow> proxy
      \<Rightarrow> panic option \<times> proxy" where
  "UpdateEndpoints_addPorts epOld epNew addrs [] p = (None, p)"
| "UpdateEndpoints_addPorts epOld epNew addrs (port # ports) p =
     (if ep_Port port = 0 then
        UpdateEndpoints_addPorts epOld epNew addrs ports
          (logf (Warningf ''ignoring invalid endpoint port %s'' [ep_Name port]) p)
      else
        (case UpdateEndpoints_addAddresses epOld epNew
                (getSvcPortName (eps_Name epNew) (eps_Namespace epNew) (ep_Name port) (ep_Protocol port))
                port addrs p of
           (Some pn, p') \<Rightarrow> (Some pn, p')
         | (None, p') \<Rightarrow> UpdateEndpoints_addPorts epOld epNew addrs ports p'))"

fun UpdateEndpoints_addSubsets ::
    "Endpoints \<Rightarrow> Endpoints \<Rightarrow> EndpointSubset list \<Rightarrow> proxy \<Rightarrow> panic option \<times> proxy" where
  "UpdateEndpoints_addSubsets epOld epNew [] p = (None, p)"
| "UpdateEndpoints_addSubsets epOld epNew (ss # rest) p =
     (case UpdateEndpoints_addPorts epOld epNew (ss_Addresses ss) (ss_Ports ss) p of
        (Some pn, p') \<Rightarrow> (Some pn, p')
      | (None, p') \<Rightarrow> UpdateEndpoints_addSubsets epOld epNew rest p')"

text \<open>The second half takes \<^verbatim>\<open>eps\<close> from the map once for a port and hands the same slice to
  \<^verbatim>\<open>deleteEndpoint\<close> for every address of the subset.\<close>

fun UpdateEndpoints_delAddresses ::
    "Endpoints \<Rightarrow> ServicePortName \<Rightarrow> EndpointPort \<Rightarrow> EndpointAddress list \<Rightarrow> endpointsInfo list
      \<Rightarrow> proxy \<Rightarrow> panic option \<times> proxy" where
  "UpdateEndpoints_delAddresses epNew svcPortName port [] eps p = (None, p)"
| "UpdateEndpoints_delAddresses epNew svcPortName port (addr # addrs) eps p =
     (if ea_IP addr = [] then
        UpdateEndpoints_delAddresses epNew svcPortName port addrs eps
          (logf (Warningf ''ignoring invalid endpoint port %s with empty host'' [ep_Name port]) p)
      else if \<not> isPortInSubset (eps_Subsets epNew) port then
        (case deleteEndpoint svcPortName addr port eps p of
           (Some pn, eps', p') \<Rightarrow> (Some pn, p')
         | (None, eps', p') \<Rightarrow> UpdateEndpoints_delAddresses epNew svcPortName port addrs eps' p')
      else UpdateEndpoints_delAddresses epNew svcPortName port addrs eps p)"

fun UpdateEndpoints_delPorts ::
    "Endpoints \<Rightarrow> Endpoints \<Rightarrow> EndpointAddress list \<Rightarrow> EndpointPort list \<Rightarrow> proxy
      \<Rightarrow> panic option \<times> proxy" where
  "UpdateEndpoints_delPorts epOld epNew addrs [] p = (None, p)"
| "UpdateEndpoints_delPorts epOld epNew addrs (port # ports) p =
     (if ep_Port port = 0 then
        UpdateEndpoints_delPorts epOld epNew addrs ports
          (logf (Warningf ''ignoring invalid endpoint port %s'' [ep_Name port]) p)
      else
        (case endpointsMap p
                (getSvcPortName (eps_Name epOld) (eps_Namespace epOld) (ep_Name port) (ep_Protocol port)) of
           None \<Rightarrow> UpdateEndpoints_delPorts epOld epNew addrs ports p
         | Some eps \<Rightarrow>
             (case UpdateEndpoints_delAddresses epNew
                     (getSvcPortName (eps_Name epOld) (eps_Namespace epOld) (ep_Name port) (ep_Protocol port))
                     port addrs eps p of
                (Some pn, p') \<Rightarrow> (Some pn, p')
              | (None, p') \<Rightarrow> UpdateEndpoints_delPorts epOld epNew addrs ports p')))"

fun UpdateEndpoints_delSubsets ::
    "Endpoints \<Rightarrow> Endpoints \<Rightarrow> EndpointSubset list \<Rightarrow> proxy \<Rightarrow> panic option \<times> proxy" where
  "UpdateEndpoints_delSubsets epOld epNew [] p = (None, p)"
| "UpdateEndpoints_delSubsets epOld epNew (ss # rest) p =
     (case UpdateEndpoints_delPorts epOld epNew (ss_Addresses ss) (ss_Ports ss) p of
        (Some pn, p') \<Rightarrow> (Some pn, p')
      | (None, p') \<Rightarrow> UpdateEndpoints_delSubsets epOld epNew rest p')"

definition UpdateEndpoints :: "Endpoints \<Rightarrow> Endpoints \<Rightarrow> proxy \<Rightarrow> panic option \<times> proxy" where
  "UpdateEndpoints epOld epNew p =
     (if eps_Namespace epNew = [] \<and> eps_Name epNew = [] then (None, p)
      else if eps_Subsets epOld \<noteq> eps_Subsets epNew then
        (case UpdateEndpoints_addSubsets epOld epNew (eps_Subsets epNew) p of
           (Some pn, p') \<Rightarrow> (Some pn, p')
         | (None, p') \<Rightarrow> UpdateEndpoints_delSubsets epOld epNew (eps_Subsets epOld) p')
      else (None, p))"

definition AddEndpoints :: "Endpoints \<Rightarrow> proxy \<Rightarrow> panic option \<times> proxy" where
  "AddEndpoints ep p =
     UpdateEndpoints \<lparr>eps_Namespace = [], eps_Name = [], eps_Subsets = []\<rparr> ep
       (logf (Infof ''Add endpoint: %s/%s'' [eps_Namespace ep, eps_Name ep]) p)"

definition DeleteEndpoints :: "Endpoints \<Rightarrow> proxy \<Rightarrow> panic option \<times> proxy" where
  "DeleteEndpoints ep p =
     UpdateEndpoints ep \<lparr>eps_Namespace = [], eps_Name = [], eps_Subsets = []\<rparr> p"

section \<open>Object cache (cache.go)\<close>

text \<open>Only the EndpointSlice cache is used by the handlers at hand. The key is the
  namespaced name; \<^verbatim>\<open>DeepCopy\<close> of a value is the value.\<close>

definition getCachedEpSlVersion :: "string \<Rightarrow> string \<Rightarrow> proxy \<Rightarrow> error + string" where
  "getCachedEpSlVersion name namespace p =
     (case epslCache p (name, namespace) of
        None \<Rightarrow> Inl (NotFound namespace name)
      | Some epsl \<Rightarrow> Inr (epsl_ResourceVersion epsl))"

definition getLastKnownEpSlFromCache :: "string \<Rightarrow> string \<Rightarrow> proxy \<Rightarrow> error + EndpointSlice" where
  "getLastKnownEpSlFromCache name namespace p =
     (case epslCache p (name, namespace) of
        None \<Rightarrow> Inl (NotFound namespace name)
      | Some epsl \<Rightarrow> Inr epsl)"

definition storeEpSlInCache :: "EndpointSlice \<Rightarrow> proxy \<Rightarrow> proxy" where
  "storeEpSlInCache epsl p =
     p\<lparr>epslCache := (epslCache p)((epsl_Name epsl, epsl_Namespace epsl) \<mapsto> epsl)\<rparr>"

definition removeEpSlFromCache :: "string \<Rightarrow> string \<Rightarrow> proxy \<Rightarrow> proxy" where
  "removeEpSlFromCache name namespace p =
     (case epslCache p (name, namespace) of
        Some epsl \<Rightarrow> p\<lparr>epslCache := (epslCache p)((name, namespace) := None)\<rparr>
      | None \<Rightarrow> logf (Warningf ''endpoint slice %s/%s not found in the cache'' [namespace, name]) p)"

section \<open>EndpointSlices (endpointslice.go)\<close>

datatype epInfo =
  epInfo (epi_name: ServicePortName) (epi_addr: EndpointAddress) (epi_port: EndpointPort) (epi_ready: bool)

definition LabelServiceName :: string where
  "LabelServiceName = ''kubernetes.io/service-name''"

definition getServiceNameFromServiceNameLabel :: "(string \<times> string) list \<Rightarrow> string \<times> bool" where
  "getServiceNameFromServiceNameLabel labels =
     (case map_of labels LabelServiceName of
        None \<Rightarrow> ([], False)
      | Some name \<Rightarrow> (name, True))"

fun processEpSlice_addresses ::
    "ServicePortName \<Rightarrow> SliceEndpoint \<Rightarrow> EndpointPort \<Rightarrow> string list \<Rightarrow> panic + epInfo list" where
  "processEpSlice_addresses svcPortName e port [] = Inr []"
| "processEpSlice_addresses svcPortName e port (addr # addrs) =
     (case deref (sle_Ready e) of
        Inl pn \<Rightarrow> Inl pn
      | Inr ready \<Rightarrow>
          (case processEpSlice_addresses svcPortName e port addrs of
             Inl pn \<Rightarrow> Inl pn
           | Inr rest \<Rightarrow>
               Inr (epInfo svcPortName
                      (EndpointAddress addr (case sle_Hostname e of None \<Rightarrow> [] | Some h \<Rightarrow> h)
                         (sle_Hostname e) (sle_TargetRef e))
                      port ready # rest)))"

fun processEpSlice_ports ::
    "string \<Rightarrow> string \<Rightarrow> SliceEndpoint \<Rightarrow> SlicePort list \<Rightarrow> error + epInfo list" where
  "processEpSlice_ports svcName namespace e [] = Inr []"
| "processEpSlice_ports svcName namespace e (sp # sps) =
     (case deref (slp_Port sp) of
        Inl pn \<Rightarrow> Inl (Panic pn)
      | Inr port \<Rightarrow>
          (case deref (slp_Name sp) of
             Inl pn \<Rightarrow> Inl (Panic pn)
           | Inr name \<Rightarrow>
               if port = 0 then Inl (InvalidPort name)
               else
                 (case deref (slp_Protocol sp) of
                    Inl pn \<Rightarrow> Inl (Panic pn)
                  | Inr protocol \<Rightarrow>
                      (case processEpSlice_addresses (getSvcPortName svcName namespace name protocol) e
                              (EndpointPort name port protocol) (sle_Addresses e) of
                         Inl pn \<Rightarrow> Inl (Panic pn)
                       | Inr here \<Rightarrow>
                           (case processEpSlice_ports svcName namespace e sps of
                              Inl err \<Rightarrow> Inl err
                            | Inr rest \<Rightarrow> Inr (here @ rest))))))"

fun processEpSlice_endpoints ::
    "string \<Rightarrow> string \<Rightarrow> SlicePort list \<Rightarrow> SliceEndpoint list \<Rightarrow> error + epInfo list" where
  "processEpSlice_endpoints svcName namespace ports [] = Inr []"
| "processEpSlice_endpoints svcName namespace ports (e # es) =
     (case processEpSlice_ports svcName namespace e ports of
        Inl err \<Rightarrow> Inl err
      | Inr here \<Rightarrow>
          (case processEpSlice_endpoints svcName namespace ports es of
             Inl err \<Rightarrow> Inl err
           | Inr rest \<Rightarrow> Inr (here @ rest)))"

definition processEpSlice :: "EndpointSlice \<Rightarrow> error + epInfo list" where
  "processEpSlice epsl =
     (case getServiceNameFromServiceNameLabel (epsl_Labels epsl) of
        (svcName, found) \<Rightarrow>
          if \<not> found then Inr []
          else processEpSlice_endpoints svcName (epsl_Namespace epsl) (epsl_Ports epsl) (epsl_Endpoints epsl))"

fun AddEndpointSlice_loop :: "EndpointSlice \<Rightarrow> epInfo list \<Rightarrow> proxy \<Rightarrow> panic option \<times> proxy" where
  "AddEndpointSlice_loop epsl [] p = (None, p)"
| "AddEndpointSlice_loop epsl (e # es) p =
     (if \<not> epi_ready e then AddEndpointSlice_loop epsl es p
      else
        (case addEndpoint (epi_name e) (epi_addr e) (epi_port e) p of
           (Some (Panic pn), p') \<Rightarrow> (Some pn, p')
         | (Some err, p') \<Rightarrow>
             (None, logf (Errorf ''failed to add Endpoint Slice %s/%s port %+v with error: %+v''
                            [epsl_Namespace epsl, epsl_Name epsl]) p')
         | (None, p') \<Rightarrow> AddEndpointSlice_loop epsl es p'))"

definition AddEndpointSlice :: "EndpointSlice \<Rightarrow> proxy \<Rightarrow> panic option \<times> proxy" where
  "AddEndpointSlice epsl p =
     (let p1 = storeEpSlInCache epsl p
      in (case processEpSlice epsl of
            Inl (Panic pn) \<Rightarrow> (Some pn, p1)
          | Inl err \<Rightarrow>
              (None, logf (Errorf ''failed to process Endpoint slice %s/%s with error: %+v''
                             [epsl_Namespace epsl, epsl_Name epsl]) p1)
          | Inr info \<Rightarrow> AddEndpointSlice_loop epsl info p1))"

text \<open>The EndpointSlice handlers test a result of \<^verbatim>\<open>deleteEndpoint\<close> and log it; the
  \<^verbatim>\<open>deleteEndpoint\<close> of proxy.go returns none. In both readings the loop goes on to the
  next tuple, and the model has no such message. Each call gets the slice \<^verbatim>\<open>eps\<close> read
  from the map just before it.\<close>

fun DeleteEndpointSlice_loop :: "EndpointSlice \<Rightarrow> epInfo list \<Rightarrow> proxy \<Rightarrow> panic option \<times> proxy" where
  "DeleteEndpointSlice_loop epsl [] p = (None, p)"
| "DeleteEndpointSlice_loop epsl (e # es) p =
     (if \<not> epi_ready e then DeleteEndpointSlice_loop epsl es p
      else
        (case endpointsMap p (epi_name e) of
           None \<Rightarrow> DeleteEndpointSlice_loop epsl es p
         | Some eps \<Rightarrow>
             (case deleteEndpoint (epi_name e) (epi_addr e) (epi_port e) eps p of
                (Some pn, eps', p') \<Rightarrow> (Some pn, p')
              | (None, eps', p') \<Rightarrow> DeleteEndpointSlice_loop epsl es p')))"

definition DeleteEndpointSlice :: "EndpointSlice \<Rightarrow> proxy \<Rightarrow> panic option \<times> proxy" where
  "DeleteEndpointSlice epsl p =
     (case processEpSlice epsl of
        Inl (Panic pn) \<Rightarrow> (Some pn, p)
      | Inl err \<Rightarrow>
          (None, logf (Errorf ''failed to process Endpoint slice %s/%s with error: %+v''
                         [epsl_Namespace epsl, epsl_Name epsl]) p)
      | Inr info \<Rightarrow>
          (case DeleteEndpointSlice_loop epsl info p of
             (Some pn, p') \<Rightarrow> (Some pn, p')
           | (None, p') \<Rightarrow> (None, removeEpSlFromCache (epsl_Name epsl) (epsl_Namespace epsl) p')))"

text \<open>Modelled from the spec: \<^verbatim>\<open>isPortInEndpointSlice\<close> is defined in a file of the
  repository that is not at hand. By the transition table of section 4.5.3 it answers, for
  a port and an address, whether that tuple is in the slice (the cartesian product of the
  addresses of its endpoints with its ports) and whether it is ready there. The result
  is the pair (ready, found), in the order the caller reads it.\<close>

definition slice_tuples :: "EndpointSlice \<Rightarrow> (string \<times> EndpointPort \<times> bool) list" where
  "slice_tuples epsl =
     concat (map (\<lambda>e.
       concat (map (\<lambda>sp.
         (case (slp_Name sp, slp_Port sp, slp_Protocol sp) of
            (Some name, Some port, Some protocol) \<Rightarrow>
              map (\<lambda>addr. (addr, EndpointPort name port protocol, sle_Ready e = Some True))
                (sle_Addresses e)
          | _ \<Rightarrow> []))
         (epsl_Ports epsl)))
       (epsl_Endpoints epsl))"

definition isPortInEndpointSlice :: "EndpointSlice \<Rightarrow> EndpointPort \<Rightarrow> EndpointAddress \<Rightarrow> bool \<times> bool" where
  "isPortInEndpointSlice epsl port addr =
     (case find (\<lambda>t. fst t = ea_IP addr \<and> fst (snd t) = port) (slice_tuples epsl) of
        None \<Rightarrow> (False, False)
      | Some t \<Rightarrow> (snd (snd t), True))"

fun UpdateEndpointSlice_new ::
    "EndpointSlice \<Rightarrow> EndpointSlice \<Rightarrow> epInfo list \<Rightarrow> proxy \<Rightarrow> panic option \<times> proxy" where
  "UpdateEndpointSlice_new storedEpSl epslNew [] p = (None, p)"
| "UpdateEndpointSlice_new storedEpSl epslNew (e # es) p =
     (case isPortInEndpointSlice storedEpSl (epi_port e) (epi_addr e) of
        (oldReady, found) \<Rightarrow>
          if \<not> found \<and> epi_ready e then
            (case addEndpoint (epi_name e) (epi_addr e) (epi_port e) p of
               (Some (Panic pn), p') \<Rightarrow> (Some pn, p')
             | (Some err, p') \<Rightarrow>
                 UpdateEndpointSlice_new storedEpSl epslNew es
                   (logf (Errorf ''failed to update Endpoint Slice %s/%s port %+v with error: %+v''
                            [epsl_Namespace epslNew, epsl_Name epslNew]) p')
             | (None, p') \<Rightarrow> UpdateEndpointSlice_new storedEpSl epslNew es p')
          else if \<not> found \<and> \<not> epi_ready e then UpdateEndpointSlice_new storedEpSl epslNew es p
          else if found \<and> epi_ready e \<and> oldReady then UpdateEndpointSlice_new storedEpSl epslNew es p
          else if found \<and> \<not> epi_ready e \<and> oldReady then
            (case endpointsMap p (epi_name e) of
               None \<Rightarrow> UpdateEndpointSlice_new storedEpSl epslNew es p
             | Some eps \<Rightarrow>
                 (case deleteEndpoint (epi_name e) (epi_addr e) (epi_port e) eps p of
                    (Some pn, eps', p') \<Rightarrow> (Some pn, p')
                  | (None, eps', p') \<Rightarrow> UpdateEndpointSlice_new storedEpSl epslNew es p'))
          else if found \<and> epi_ready e \<and> \<not> oldReady then
            (case addEndpoint (epi_name e) (epi_addr e) (epi_port e) p of
               (Some (Panic pn), p') \<Rightarrow> (Some pn, p')
             | (Some err, p') \<Rightarrow>
                 UpdateEndpointSlice_new storedEpSl epslNew es
                   (logf (Errorf ''failed to update Endpoint Slice %s/%s port %+v with error: %+v''
                            [epsl_Namespace epslNew, epsl_Name epslNew]) p')
             | (None, p') \<Rightarrow> UpdateEndpointSlice_new storedEpSl epslNew es p')
          else UpdateEndpointSlice_new storedEpSl epslNew es p)"

fun UpdateEndpointSlice_old ::
    "EndpointSlice \<Rightarrow> epInfo list \<Rightarrow> proxy \<Rightarrow> panic option \<times> proxy" where
  "UpdateEndpointSlice_old epslNew [] p = (None, p)"
| "UpdateEndpointSlice_old epslNew (e # es) p =
     (case isPortInEndpointSlice epslNew (epi_port e) (epi_addr e) of
        (newReady, found) \<Rightarrow>
          if \<not> found \<and> epi_ready e then
            (case endpointsMap p (epi_name e) of
               None \<Rightarrow> UpdateEndpointSlice_old epslNew es p
             | Some eps \<Rightarrow>
                 (case deleteEndpoint (epi_name e) (epi_addr e) (epi_port e) eps p of
                    (Some pn, eps', p') \<Rightarrow> (Some pn, p')
                  | (None, eps', p') \<Rightarrow> UpdateEndpointSlice_old epslNew es p'))
          else UpdateEndpointSlice_old epslNew es p)"

text \<open>The first part of \<^verbatim>\<open>UpdateEndpointSlice\<close>: which slice stands for the old one, and
  what is logged about it.\<close>

definition UpdateEndpointSlice_stored ::
    "EndpointSlice \<Rightarrow> EndpointSlice \<Rightarrow> proxy \<Rightarrow> (panic + EndpointSlice) \<times> proxy" where
  "UpdateEndpointSlice_stored epslOld epslNew p =
     (case getCachedEpSlVersion (epsl_Name epslNew) (epsl_Namespace epslNew) p of
        Inl err \<Rightarrow>
          (Inr epslOld,
           logf (Errorf ''UpdateEndpoint did not find Endpoint Slice %s/%s in cache, it is a bug, please file an issue''
                   [epsl_Namespace epslNew, epsl_Name epslNew]) p)
      | Inr ver \<Rightarrow>
          (let oldVer = epsl_ResourceVersion epslOld;
               p1 = (if oldVer \<noteq> ver then
                       logf (Warningf ''mismatch version detected between old Endpoint Slice %s/%s and last known stored in cache %s/%s''
                               [epsl_Namespace epslNew, epsl_Name epslNew, oldVer, ver]) p
                     else p)
           in (case getLastKnownEpSlFromCache (epsl_Name epslNew) (epsl_Namespace epslNew) p1 of
                 Inl err \<Rightarrow> (Inl NilDereference, p1)
               | Inr storedEpSl \<Rightarrow> (Inr storedEpSl, p1))))"

text \<open>The rest of \<^verbatim>\<open>UpdateEndpointSlice\<close>, from the comment "Check for new Endpoint's ports"
  on: the two loops over the tuples of the new slice and of the slice that stands for the
  old one, and the store into the cache.\<close>

definition UpdateEndpointSlice_diff :: "EndpointSlice \<Rightarrow> EndpointSlice \<Rightarrow> proxy \<Rightarrow> panic option \<times> proxy" where
  "UpdateEndpointSlice_diff storedEpSl epslNew p1 =
     (case processEpSlice epslNew of
        Inl (Panic pn) \<Rightarrow> (Some pn, p1)
      | Inl err \<Rightarrow>
          (None, logf (Errorf ''failed to update Endpoint Slice %s/%s with error: %+v''
                         [epsl_Namespace epslNew, epsl_Name epslNew]) p1)
      | Inr info \<Rightarrow>
          (case UpdateEndpointSlice_new storedEpSl epslNew info p1 of
             (Some pn, p2) \<Rightarrow> (Some pn, p2)
           | (None, p2) \<Rightarrow>
               (case processEpSlice storedEpSl of
                  Inl (Panic pn) \<Rightarrow> (Some pn, p2)
                | Inl err \<Rightarrow> (None, storeEpSlInCache epslNew p2)
                | Inr info' \<Rightarrow>
                    (case UpdateEndpointSlice_old epslNew info' p2 of
                       (Some pn, p3) \<Rightarrow> (Some pn, p3)
                     | (None, p3) \<Rightarrow> (None, storeEpSlInCache epslNew p3)))))"

definition UpdateEndpointSlice :: "EndpointSlice \<Rightarrow> EndpointSlice \<Rightarrow> proxy \<Rightarrow> panic option \<times> proxy" where
  "UpdateEndpointSlice epslOld epslNew p =
     (case UpdateEndpointSlice_stored epslOld epslNew p of
        (Inl pn, p1) \<Rightarrow> (Some pn, p1)
      | (Inr storedEpSl, p1) \<Rightarrow> UpdateEndpointSlice_diff storedEpSl epslNew p1)"

section \<open>The initial state\<close>

text \<open>\<^verbatim>\<open>NewProxy\<close> starts with empty maps. The kernel it is given has the two top-level
  chains of each table family and nothing else.\<close>

definition initial_kernel :: "bool list \<Rightarrow> kernel" where
  "initial_kernel faults =
     \<lparr>k_chains = [(TableFamilyIPv4, K8sNATServices) \<mapsto> [], (TableFamilyIPv4, K8sNATNodeports) \<mapsto> [],
                   (TableFamilyIPv6, K8sNATServices) \<mapsto> [], (TableFamilyIPv6, K8sNATNodeports) \<mapsto> []],
      k_noEndpoints = {},
      k_nextHandle = 1,
      k_faults = faults,
      k_journal = []\<rparr>"

definition NewProxy :: "kernel \<Rightarrow> string \<Rightarrow> proxy" where
  "NewProxy nft host =
     \<lparr>hostname = host, nfti = nft, serviceMap = Map.empty, endpointsMap = Map.empty,
      epslCache = Map.empty, klog = []\<rparr>"

subsection \<open>Properties of the chain names\<close>

lemma sha256_length: "length (sha256 m) = 32"
  by (simp add: sha256_def be32_bytes_def split: prod.splits)

lemma b32_quantum_length: "length (b32_quantum src) = 8"
  by (simp add: b32_quantum_def b32_groups_def b32_pad_count_def)

lemma base32_encode_length: "length (base32_encode src) = 8 * ((length src + 4) div 5)"
proof (induction src rule: base32_encode.induct)
  case (2 s0 s1 s2 s3 s4 rest)
  have "(9 + length rest) div 5 = 1 + (length rest + 4) div 5" by presburger
  with 2 show ?case by (simp add: b32_quantum_length)
qed (simp_all add: b32_quantum_length)

lemma b32_char_alphabet: "b32_char b \<in> set encodeStd"
proof -
  have "b AND 31 \<le> 31" by (rule word_and_le1)
  then have "unat (b AND 31) \<le> unat (31 :: byte)" by (simp add: word_le_nat_alt)
  then have "unat (b AND 31) < length encodeStd" by (simp add: encodeStd_def)
  then show ?thesis unfolding b32_char_def by (rule nth_mem)
qed

lemma base32_encode_take16:
  "10 \<le> length src \<Longrightarrow> set (take 16 (base32_encode src)) \<subseteq> set encodeStd"
proof -
  assume "10 \<le> length src"
  then obtain s0 s1 s2 s3 s4 s5 s6 s7 s8 s9 rest where
    "src = s0 # s1 # s2 # s3 # s4 # s5 # s6 # s7 # s8 # s9 # rest"
    by (auto simp: Suc_le_length_iff numeral_eq_Suc)
  then show ?thesis
    by (auto simp: b32_quantum_def b32_pad_count_def b32_groups_def b32_char_alphabet)
qed

text \<open>
  Claim C8. The chain-name functions are pure functions of their arguments:
  \<open>portProtoHash spn proto\<close> is the prefix \<^verbatim>\<open>k8s-nfproxy-svc-\<close> followed by the first
  sixteen characters of the base32 encoding of SHA-256 of \<open>spn @ proto\<close>, and
  \<open>servicePortEndpointChainName spn proto ep\<close> is \<^verbatim>\<open>k8s-nfproxy-sep-\<close> followed by the
  first sixteen base32 characters of SHA-256 of \<open>spn @ proto @ ep\<close>. The slice
  \<^verbatim>\<open>encoded[:16]\<close> never panics (the encoding of a 32-byte digest has 56 characters), the
  sixteen characters are all there, and all of them are letters of the upper-case base32
  alphabet (no padding). Being functions, equal inputs give equal names.
\<close>

theorem chain_names_sha256_base32:
  "portProtoHash spn proto =
     Inr (''k8s-nfproxy-svc-'' @ take 16 (base32_encode (sha256 (string_bytes (spn @ proto)))))
   \<and> servicePortEndpointChainName spn proto ep =
     Inr (''k8s-nfproxy-sep-'' @ take 16 (base32_encode (sha256 (string_bytes (spn @ proto @ ep)))))
   \<and> length (take 16 (base32_encode (sha256 (string_bytes (spn @ proto))))) = 16
   \<and> length (take 16 (base32_encode (sha256 (string_bytes (spn @ proto @ ep))))) = 16
   \<and> set (take 16 (base32_encode (sha256 (string_bytes (spn @ proto))))) \<subseteq> set encodeStd
   \<and> set (take 16 (base32_encode (sha256 (string_bytes (spn @ proto @ ep))))) \<subseteq> set encodeStd"
  by (simp add: portProtoHash_def servicePortEndpointChainName_def slice_to_def
      base32_encode_length sha256_length base32_encode_take16)

section \<open>Evaluating the model on concrete states\<close>

text \<open>
  The chain names stay symbolic when a handler is run on a concrete state: the name of an
  endpoint chain is its prefix followed by \<open>sep_id\<close>, the sixteen characters that the hash
  gives, and nothing below needs their value.
\<close>

definition sep_id :: "string \<Rightarrow> string \<Rightarrow> string \<Rightarrow> string" where
  "sep_id spn proto ep = take 16 (base32_encode (sha256 (string_bytes (spn @ proto @ ep))))"

lemma servicePortEndpointChainName_Inr:
  "servicePortEndpointChainName spn proto ep = Inr (''k8s-nfproxy-sep-'' @ sep_id spn proto ep)"
  by (simp add: servicePortEndpointChainName_def slice_to_def base32_encode_length sha256_length sep_id_def)

lemmas driver_defs =
  drv_call_def err_of_def rules_of_def fresh_rules_def append_rules_def insert_rules_after_def
  remove_rules_def ensure_chain_def drop_chain_def AddToNoEndpointsList_def
  RemoveFromNoEndpointsList_def AddServiceChains_def DeleteServiceChains_def
  ProgramServiceClusterIP_def ProgramServiceNodePort_def ProgramServiceExternalIP_def
  ProgramServiceLoadBalancerFW_def ProgramServiceLoadBalancerIP_def ProgramServiceEndpoints_def
  DeleteServiceRules_def AddEndpointRules_def DeleteEndpointRules_def DeleteChain_def
  K8sNATServices_def K8sNATNodeports_def K8sSvcPrefix_def K8sFwPrefix_def K8sXlbPrefix_def

lemmas proxy_defs =
  logf_def on_nfti_def catch_err_def catch_val_def panic_of_def eps_of_def get_RuleID_def
  set_RuleID_def store_RuleID_def GetSvcChain_def newBaseServiceInfo_def newBaseEndpointInfo_def
  Equal_def ShouldSkipService_def deref_def getSvcPortName_def getIPFamily_def IsIPv6String_def
  ParseIP_def IP_String_def addToNoEndpointsList_def removeFromNoEndpointsList_def
  addService_noEndpoints_def addService_loadBalancerIPs_def addService_externalIPs_def
  addService_nodePort_def addService_clusterIP_def addService_def AddService_def
  UpdateServiceChain_def getServicePortEndpointChains_def addEndpointRule_def addEndpoint_def
  deleteEndpointRules_def deleteEndpoint_def deleteEndpoint_loop.simps splice_array_def
  isPortInSubset_def UpdateEndpoints_def AddEndpoints_def DeleteEndpoints_def
  initial_kernel_def NewProxy_def servicePortEndpointChainName_Inr Let_def

text \<open>The running example: the service \<^verbatim>\<open>default/web\<close> with cluster IP 10.96.0.10 and the
  port \<^verbatim>\<open>http\<close> 80/TCP, backed by pods at 10.244.1.5 and 10.244.1.6, port 8080, on a node
  whose driver rejects nothing.\<close>

definition ex_sp :: ServicePort where
  "ex_sp = ServicePort ''http'' ''TCP'' 80 0"

definition ex_svc :: Service where
  "ex_svc =
     \<lparr>svc_Namespace = ''default'', svc_Name = ''web'', svc_Type = ''ClusterIP'',
      svc_ClusterIP = ''10.96.0.10'', svc_Ports = [ServicePort ''http'' ''TCP'' 80 0],
      svc_ExternalIPs = [], svc_LoadBalancerIPs = []\<rparr>"

definition ex_key :: ServicePortName where
  "ex_key = ServicePortName ''default'' ''web'' ''http'' ''TCP''"

definition ex_svcID :: string where
  "ex_svcID = servicePortSvcID (spn_String ex_key) ''TCP'' (si_String (newBaseServiceInfo ex_sp ex_svc))"

definition ex_port :: EndpointPort where
  "ex_port = EndpointPort ''http'' 8080 ''TCP''"

definition ex_addrA :: EndpointAddress where
  "ex_addrA = EndpointAddress ''10.244.1.5'' [] None None"

definition ex_addrB :: EndpointAddress where
  "ex_addrB = EndpointAddress ''10.244.1.6'' [] None None"

definition ex_ep0 :: Endpoints where
  "ex_ep0 = \<lparr>eps_Namespace = ''default'', eps_Name = ''web'', eps_Subsets = []\<rparr>"

definition ex_ep1 :: Endpoints where
  "ex_ep1 =
     \<lparr>eps_Namespace = ''default'', eps_Name = ''web'',
      eps_Subsets = [EndpointSubset [ex_addrA] [ex_port]]\<rparr>"

definition ex_ep2 :: Endpoints where
  "ex_ep2 =
     \<lparr>eps_Namespace = ''default'', eps_Name = ''web'',
      eps_Subsets = [EndpointSubset [ex_addrA, ex_addrB] [ex_port]]\<rparr>"

definition ex_P0 :: proxy where
  "ex_P0 = NewProxy (initial_kernel []) ''node1''"

lemmas ex_defs =
  ex_sp_def ex_svc_def ex_key_def ex_svcID_def ex_port_def ex_addrA_def ex_addrB_def ex_ep0_def
  ex_ep1_def ex_ep2_def ex_P0_def

section \<open>Services: the claims\<close>

text \<open>
  Claim C7. When \<^verbatim>\<open>addService\<close> is called for a key that \<^verbatim>\<open>serviceMap\<close> already holds, it logs
  the warning and returns, and the state is the one before the call: \<^verbatim>\<open>serviceMap\<close>,
  \<^verbatim>\<open>endpointsMap\<close>, the kernel (chains, rules, no-endpoints set, and the journal: no driver
  call is made) and the cache are the same; only the log has one more line.
\<close>

theorem addService_existing_key_unchanged:
  assumes "serviceMap p svcPortName \<noteq> None"
  shows "addService svcPortName servicePort svc baseSvcInfo p =
           (None, p\<lparr>klog := klog p @ [Warningf ''Service port name %+v already exists''
                                          [spn_String svcPortName]]\<rparr>)
         \<and> serviceMap (snd (addService svcPortName servicePort svc baseSvcInfo p)) = serviceMap p
         \<and> endpointsMap (snd (addService svcPortName servicePort svc baseSvcInfo p)) = endpointsMap p
         \<and> nfti (snd (addService svcPortName servicePort svc baseSvcInfo p)) = nfti p
         \<and> epslCache (snd (addService svcPortName servicePort svc baseSvcInfo p)) = epslCache p"
  using assms by (simp add: addService_def logf_def)

lemma ex_after_AddService:
  "serviceMap (snd (AddService (Some ex_svc) ex_P0)) ex_key \<noteq> None"
  by (simp add: proxy_defs driver_defs ex_defs)

text \<open>The witness: \<^verbatim>\<open>AddService\<close> of the example service, a second time.\<close>

theorem addService_existing_key_unchanged_witness:
  "serviceMap (snd (AddService (Some ex_svc) ex_P0)) ex_key \<noteq> None
   \<and> addService ex_key ex_sp ex_svc (newBaseServiceInfo ex_sp ex_svc) (snd (AddService (Some ex_svc) ex_P0)) =
       (None, (snd (AddService (Some ex_svc) ex_P0))
                \<lparr>klog := klog (snd (AddService (Some ex_svc) ex_P0))
                   @ [Warningf ''Service port name %+v already exists'' [spn_String ex_key]]\<rparr>)"
  using addService_existing_key_unchanged [OF ex_after_AddService, of ex_sp ex_svc "newBaseServiceInfo ex_sp ex_svc"]
        ex_after_AddService
  by simp

text \<open>
  Claim C10. \<^verbatim>\<open>AddService\<close> and \<^verbatim>\<open>DeleteService\<close> read \<^verbatim>\<open>svc.Namespace\<close> and \<^verbatim>\<open>svc.Name\<close> for
  the log message before they compare \<^verbatim>\<open>svc\<close> with nil. On nil both fault with a nil
  dereference and leave the state as it was; on a service the guard is false, so the
  early return of the guard is taken on no input at all.
\<close>

theorem AddService_DeleteService_nil:
  "AddService None p = (Some NilDereference, p)
   \<and> DeleteService None p = (Some NilDereference, p)
   \<and> AddService (Some s) p =
       (if ShouldSkipService s
        then (None, logf (Infof ''AddService for a service %s/%s'' [svc_Namespace s, svc_Name s]) p)
        else AddService_ports s (svc_Ports s)
               (logf (Infof ''AddService for a service %s/%s'' [svc_Namespace s, svc_Name s]) p))
   \<and> DeleteService (Some s) p =
       DeleteService_ports s (svc_Ports s)
         (logf (Infof ''DeleteService for a service %s/%s'' [svc_Namespace s, svc_Name s]) p)"
  by (simp add: AddService_def DeleteService_def deref_def)

text \<open>
  Claim C1. \<^verbatim>\<open>addService\<close> never calls \<^verbatim>\<open>UpdateServiceChain\<close>. Here the endpoints of the
  example arrive before its service: \<^verbatim>\<open>AddEndpoints\<close>, then \<^verbatim>\<open>AddService\<close>. The key is new to
  \<^verbatim>\<open>serviceMap\<close> and \<^verbatim>\<open>endpointsMap\<close> holds a backend for it, yet after the call the flag
  \<^verbatim>\<open>WithEndpoints\<close> is false, the service chain has no rule, and the driver has seen three
  calls in all (the endpoint's rules, the service chains, the cluster IP rule), none of
  them the programming of the endpoints.
\<close>

theorem addService_existing_endpoints_not_wired:
  "serviceMap (snd (AddEndpoints ex_ep1 ex_P0)) ex_key = None
   \<and> eps_of (snd (AddService (Some ex_svc) (snd (AddEndpoints ex_ep1 ex_P0)))) ex_key \<noteq> []
   \<and> map_option si_WithEndpoints
         (serviceMap (snd (AddService (Some ex_svc) (snd (AddEndpoints ex_ep1 ex_P0)))) ex_key) = Some False
   \<and> k_chains (nfti (snd (AddService (Some ex_svc) (snd (AddEndpoints ex_ep1 ex_P0)))))
         (TableFamilyIPv4, K8sSvcPrefix @ ex_svcID) = Some []
   \<and> length (k_journal (nfti (snd (AddService (Some ex_svc) (snd (AddEndpoints ex_ep1 ex_P0)))))) = 3"
  by (simp add: proxy_defs driver_defs ex_defs)

text \<open>
  Claim C5. The state after \<^verbatim>\<open>AddEndpoints\<close> and \<^verbatim>\<open>AddService\<close> of the example is reachable
  by two handler calls from the initial state, with no driver error. In it the service
  port is in \<^verbatim>\<open>serviceMap\<close> with \<^verbatim>\<open>WithEndpoints\<close> false, and its cluster IP is not in the
  no-endpoints set.
\<close>

theorem no_endpoints_set_differs_from_flag:
  "map_option si_WithEndpoints
         (serviceMap (snd (AddService (Some ex_svc) (snd (AddEndpoints ex_ep1 ex_P0)))) ex_key) = Some False
   \<and> (TableFamilyIPv4, ''TCP'', ''10.96.0.10'', 80)
         \<notin> k_noEndpoints (nfti (snd (AddService (Some ex_svc) (snd (AddEndpoints ex_ep1 ex_P0)))))"
  by (simp add: proxy_defs driver_defs ex_defs)

section \<open>Endpoints: the claims\<close>

text \<open>
  Claim C2. \<^verbatim>\<open>isPortInSubset\<close> looks at the ports of the other object only, not at its
  addresses. When the example's endpoints grow from one address to two on the same port,
  the subsets differ and the backend (10.244.1.6, 8080) is in the new object and not in
  the old one, but \<^verbatim>\<open>UpdateEndpoints\<close> calls neither \<^verbatim>\<open>addEndpoint\<close> nor \<^verbatim>\<open>deleteEndpoint\<close>:
  whatever the state, it is left as it was.
\<close>

theorem UpdateEndpoints_new_address_known_port:
  "eps_Subsets ex_ep1 \<noteq> eps_Subsets ex_ep2
   \<and> UpdateEndpoints ex_ep1 ex_ep2 p = (None, p)"
  by (simp add: ex_defs UpdateEndpoints_def isPortInSubset_def getSvcPortName_def split: option.split)

section \<open>EndpointSlices: the claims\<close>

text \<open>An example slice of the service \<^verbatim>\<open>default/web\<close>: one endpoint with the given
  addresses and readiness, one port \<^verbatim>\<open>http\<close> 8080/TCP.\<close>

definition ex_slice :: "string \<Rightarrow> string list \<Rightarrow> bool \<Rightarrow> EndpointSlice" where
  "ex_slice version addresses ready =
     \<lparr>epsl_Namespace = ''default'', epsl_Name = ''web-abc'', epsl_ResourceVersion = version,
      epsl_Labels = [(''kubernetes.io/service-name'', ''web'')],
      epsl_Endpoints = [SliceEndpoint addresses (Some ready) None None],
      epsl_Ports = [SlicePort (Some ''http'') (Some ''TCP'') (Some 8080)]\<rparr>"

text \<open>The order of resource versions that the claim speaks of: a version is a decimal
  number, and the greater one is the newer.\<close>

fun digits_value :: "nat \<Rightarrow> string \<Rightarrow> nat" where
  "digits_value acc [] = acc"
| "digits_value acc (c # cs) = digits_value (10 * acc + (of_char c - 48)) cs"

definition version_newer :: "string \<Rightarrow> string \<Rightarrow> bool" where
  "version_newer a b \<longleftrightarrow> digits_value 0 b < digits_value 0 a"

text \<open>
  Claim C4, as the code has it. \<^verbatim>\<open>UpdateEndpointSlice\<close> looks the slice up in the cache. When
  the cache has a copy, the handler diffs the new slice against that copy, whatever the
  two versions are, and the mismatch warning is logged exactly when the version of the
  delivered old slice and the version of the copy differ: the call does what a call with
  the cached copy as its old slice does, after the warning. When the cache has none, the
  handler logs an error and diffs against the delivered old slice. The versions are
  compared for equality only.
\<close>

theorem UpdateEndpointSlice_uses_cached:
  "UpdateEndpointSlice epslOld epslNew p =
     (case epslCache p (epsl_Name epslNew, epsl_Namespace epslNew) of
        None \<Rightarrow>
          UpdateEndpointSlice_diff epslOld epslNew
            (logf (Errorf ''UpdateEndpoint did not find Endpoint Slice %s/%s in cache, it is a bug, please file an issue''
                     [epsl_Namespace epslNew, epsl_Name epslNew]) p)
      | Some cached \<Rightarrow>
          UpdateEndpointSlice_diff cached epslNew
            (if epsl_ResourceVersion epslOld \<noteq> epsl_ResourceVersion cached then
               logf (Warningf ''mismatch version detected between old Endpoint Slice %s/%s and last known stored in cache %s/%s''
                       [epsl_Namespace epslNew, epsl_Name epslNew, epsl_ResourceVersion epslOld,
                        epsl_ResourceVersion cached]) p
             else p))
   \<and> (case epslCache p (epsl_Name epslNew, epsl_Namespace epslNew) of
        None \<Rightarrow> True
      | Some cached \<Rightarrow>
          UpdateEndpointSlice epslOld epslNew p =
            UpdateEndpointSlice cached epslNew
              (if epsl_ResourceVersion epslOld \<noteq> epsl_ResourceVersion cached then
                 logf (Warningf ''mismatch version detected between old Endpoint Slice %s/%s and last known stored in cache %s/%s''
                         [epsl_Namespace epslNew, epsl_Name epslNew, epsl_ResourceVersion epslOld,
                          epsl_ResourceVersion cached]) p
               else p))"
  by (simp add: UpdateEndpointSlice_def UpdateEndpointSlice_stored_def getCachedEpSlVersion_def
        getLastKnownEpSlFromCache_def logf_def Let_def split: option.split)

text \<open>
  The claim as it was stated fails where the cached copy is the older one. The slice is
  added at version 5 with the address 10.244.1.5; then an update delivers version 7 with
  10.244.1.6 as the old slice and version 8 with 10.244.1.7 as the new one. The cached
  copy is not newer than the delivered old slice, and the handler diffs against it: the
  mismatch is logged, the backend 10.244.1.5 of the cached copy is removed and 10.244.1.7
  is added. A diff against the delivered old slice would have kept 10.244.1.5.
\<close>

lemmas slice_defs =
  AddEndpointSlice_def UpdateEndpointSlice_def UpdateEndpointSlice_diff_def
  UpdateEndpointSlice_stored_def getCachedEpSlVersion_def getLastKnownEpSlFromCache_def
  storeEpSlInCache_def processEpSlice_def getServiceNameFromServiceNameLabel_def
  LabelServiceName_def isPortInEndpointSlice_def slice_tuples_def ex_slice_def

theorem UpdateEndpointSlice_older_cache_used:
  "epslCache (snd (AddEndpointSlice (ex_slice ''5'' [''10.244.1.5''] True) ex_P0)) (''web-abc'', ''default'')
     = Some (ex_slice ''5'' [''10.244.1.5''] True)
   \<and> \<not> version_newer (epsl_ResourceVersion (ex_slice ''5'' [''10.244.1.5''] True))
                       (epsl_ResourceVersion (ex_slice ''7'' [''10.244.1.6''] True))
   \<and> map ei_IP (eps_of (snd (AddEndpointSlice (ex_slice ''5'' [''10.244.1.5''] True) ex_P0)) ex_key)
       = [''10.244.1.5'']
   \<and> map ei_IP (eps_of (snd (UpdateEndpointSlice (ex_slice ''7'' [''10.244.1.6''] True)
                                  (ex_slice ''8'' [''10.244.1.7''] True)
                                  (snd (AddEndpointSlice (ex_slice ''5'' [''10.244.1.5''] True) ex_P0)))) ex_key)
       = [''10.244.1.7'']
   \<and> klog (snd (UpdateEndpointSlice (ex_slice ''7'' [''10.244.1.6''] True)
                   (ex_slice ''8'' [''10.244.1.7''] True)
                   (snd (AddEndpointSlice (ex_slice ''5'' [''10.244.1.5''] True) ex_P0))))
       = [Warningf ''mismatch version detected between old Endpoint Slice %s/%s and last known stored in cache %s/%s''
            [''default'', ''web-abc'', ''7'', ''5'']]
   \<and> map ei_IP (eps_of (snd (UpdateEndpointSlice_diff (ex_slice ''7'' [''10.244.1.6''] True)
                                  (ex_slice ''8'' [''10.244.1.7''] True)
                                  (snd (AddEndpointSlice (ex_slice ''5'' [''10.244.1.5''] True) ex_P0)))) ex_key)
       = [''10.244.1.5'', ''10.244.1.7'']"
  by (simp add: slice_defs proxy_defs driver_defs ex_defs version_newer_def)

subsection \<open>What \<^verbatim>\<open>addEndpoint\<close> leaves alone\<close>


























definition ex_tuple :: "string \<Rightarrow> epInfo" where
  "ex_tuple ip = epInfo ex_key (EndpointAddress ip [] None None) ex_port True"




subsection \<open>An update as a sequence of additions and deletions\<close>

text \<open>
  The specification describes an update of a slice by the additions and deletions it
  amounts to. The definitions of this subsection follow that description, to be compared
  with the handler \<^verbatim>\<open>UpdateEndpointSlice\<close> of the source: an action is the addition or
  the deletion of one (address, port) tuple. A tuple of the new slice is added when it is
  ready there and not ready (or absent) in the old slice, and deleted when it is not ready
  there and ready in the old slice; a tuple of the old slice is deleted when it is ready
  there and absent from the new slice.
\<close>

datatype action = Add epInfo | Del epInfo

definition new_action :: "EndpointSlice \<Rightarrow> epInfo \<Rightarrow> action option" where
  "new_action epslOld e =
     (case isPortInEndpointSlice epslOld (epi_port e) (epi_addr e) of
        (oldReady, found) \<Rightarrow>
          if epi_ready e \<and> \<not> (found \<and> oldReady) then Some (Add e)
          else if \<not> epi_ready e \<and> found \<and> oldReady then Some (Del e)
          else None)"

definition old_action :: "EndpointSlice \<Rightarrow> epInfo \<Rightarrow> action option" where
  "old_action epslNew e =
     (if epi_ready e \<and> \<not> snd (isPortInEndpointSlice epslNew (epi_port e) (epi_addr e))
      then Some (Del e) else None)"

text \<open>Performing an action is a call of \<^verbatim>\<open>addEndpoint\<close> or \<^verbatim>\<open>deleteEndpoint\<close> of the source,
  the latter on the list that the state holds for the service port at that moment. A
  failed addition is logged and the next action is performed; a panic ends the sequence.\<close>

definition perform :: "EndpointSlice \<Rightarrow> action \<Rightarrow> proxy \<Rightarrow> panic option \<times> proxy" where
  "perform epslNew a p =
     (case a of
        Add e \<Rightarrow>
          (case addEndpoint (epi_name e) (epi_addr e) (epi_port e) p of
             (Some (Panic pn), q) \<Rightarrow> (Some pn, q)
           | (Some err, q) \<Rightarrow>
               (None, logf (Errorf ''failed to update Endpoint Slice %s/%s port %+v with error: %+v''
                              [epsl_Namespace epslNew, epsl_Name epslNew]) q)
           | (None, q) \<Rightarrow> (None, q))
      | Del e \<Rightarrow>
          (case deleteEndpoint (epi_name e) (epi_addr e) (epi_port e) (eps_of p (epi_name e)) p of
             (r, eps', q) \<Rightarrow> (r, q)))"

fun perform_all :: "EndpointSlice \<Rightarrow> action list \<Rightarrow> proxy \<Rightarrow> panic option \<times> proxy" where
  "perform_all epslNew [] p = (None, p)"
| "perform_all epslNew (a # as) p =
     (case perform epslNew a p of
        (Some pn, q) \<Rightarrow> (Some pn, q)
      | (None, q) \<Rightarrow> perform_all epslNew as q)"

lemma perform_all_append:
  "perform_all epslNew (xs @ ys) p =
     (case perform_all epslNew xs p of
        (Some pn, q) \<Rightarrow> (Some pn, q)
      | (None, q) \<Rightarrow> perform_all epslNew ys q)"
  by (induction xs arbitrary: p) (auto split: prod.splits option.splits)

lemma deleteEndpoint_nil: "deleteEndpoint key addr port [] p = (None, [], p)"
  by (simp add: deleteEndpoint_def deleteEndpoint_loop.simps Let_def)

lemma perform_Del:
  "perform epslNew (Del e) p =
     (case endpointsMap p (epi_name e) of
        None \<Rightarrow> (None, p)
      | Some eps \<Rightarrow>
          (case deleteEndpoint (epi_name e) (epi_addr e) (epi_port e) eps p of
             (Some pn, eps', p') \<Rightarrow> (Some pn, p')
           | (None, eps', p') \<Rightarrow> (None, p')))"
  by (auto simp: perform_def eps_of_def deleteEndpoint_nil split: option.splits prod.splits)

lemma perform_Add:
  "perform epslNew (Add e) p =
     (case addEndpoint (epi_name e) (epi_addr e) (epi_port e) p of
        (Some (Panic pn), q) \<Rightarrow> (Some pn, q)
      | (Some err, q) \<Rightarrow>
          (None, logf (Errorf ''failed to update Endpoint Slice %s/%s port %+v with error: %+v''
                         [epsl_Namespace epslNew, epsl_Name epslNew]) q)
      | (None, q) \<Rightarrow> (None, q))"
  by (simp add: perform_def)

lemma UpdateEndpointSlice_new_actions:
  "UpdateEndpointSlice_new storedEpSl epslNew info p =
     perform_all epslNew (List.map_filter (new_action storedEpSl) info) p"
proof (induction info arbitrary: p)
  case Nil
  show ?case by (simp add: List.map_filter_simps)
next
  case (Cons e es)
  obtain oldReady found where ip: "isPortInEndpointSlice storedEpSl (epi_port e) (epi_addr e) = (oldReady, found)"
    by (cases "isPortInEndpointSlice storedEpSl (epi_port e) (epi_addr e)")
  consider (add) "epi_ready e" "\<not> (found \<and> oldReady)"
    | (del) "\<not> epi_ready e" "found" "oldReady"
    | (keep) "epi_ready e \<and> found \<and> oldReady \<or> \<not> epi_ready e \<and> \<not> (found \<and> oldReady)"
    by blast
  then show ?case
  proof cases
    case add
    then have na: "new_action storedEpSl e = Some (Add e)"
      using ip by (simp add: new_action_def)
    show ?thesis
      using add ip na Cons.IH
      by (auto simp: List.map_filter_simps perform_Add split: prod.splits option.splits error.splits)
  next
    case del
    then have na: "new_action storedEpSl e = Some (Del e)"
      using ip by (simp add: new_action_def)
    show ?thesis
      using del ip na Cons.IH
      by (auto simp: List.map_filter_simps perform_Del split: prod.splits option.splits)
  next
    case keep
    then have na: "new_action storedEpSl e = None"
      using ip by (auto simp: new_action_def)
    show ?thesis
      using keep ip na Cons.IH by (auto simp: List.map_filter_simps)
  qed
qed

lemma UpdateEndpointSlice_old_actions:
  "UpdateEndpointSlice_old epslNew info p =
     perform_all epslNew (List.map_filter (old_action epslNew) info) p"
proof (induction info arbitrary: p)
  case Nil
  show ?case by (simp add: List.map_filter_simps)
next
  case (Cons e es)
  obtain newReady found where ip: "isPortInEndpointSlice epslNew (epi_port e) (epi_addr e) = (newReady, found)"
    by (cases "isPortInEndpointSlice epslNew (epi_port e) (epi_addr e)")
  show ?case
  proof (cases "epi_ready e \<and> \<not> found")
    case True
    then have oa: "old_action epslNew e = Some (Del e)"
      using ip by (simp add: old_action_def)
    show ?thesis
      using True ip oa Cons.IH
      by (auto simp: List.map_filter_simps perform_Del split: prod.splits option.splits)
  next
    case False
    then have oa: "old_action epslNew e = None"
      using ip by (auto simp: old_action_def)
    show ?thesis
      using False ip oa Cons.IH by (auto simp: List.map_filter_simps)
  qed
qed

text \<open>
  Claim C3, as the code has it. When the cache holds the old slice (so that the old slice
  is the authoritative previous one) and \<^verbatim>\<open>processEpSlice\<close> returns the tuples of both
  slices (no port 0, no nil field), \<^verbatim>\<open>UpdateEndpointSlice\<close> reaches the state reached from the state before the call by
  performing, in this order: for every tuple of the new slice, in the order of the slice,
  the addition when it is ready in the new slice and not ready or absent in the old one,
  or the deletion when it is not ready in the new slice and ready in the old one; then,
  for every tuple of the old slice, in the order of the slice, the deletion when it is
  ready in the old slice and absent from the new one. Tuples that kept their readiness are
  left untouched. When no action panics the new slice is then stored in the cache. The
  order is part of the result: the additions do not commute.
\<close>

theorem UpdateEndpointSlice_performs_actions_in_order:
  assumes "epslCache p (epsl_Name epslNew, epsl_Namespace epslNew) = Some epslOld"
    and "processEpSlice epslNew = Inr infoNew"
    and "processEpSlice epslOld = Inr infoOld"
  shows "UpdateEndpointSlice epslOld epslNew p =
           (case perform_all epslNew
                   (List.map_filter (new_action epslOld) infoNew
                      @ List.map_filter (old_action epslNew) infoOld) p of
              (Some pn, q) \<Rightarrow> (Some pn, q)
            | (None, q) \<Rightarrow> (None, storeEpSlInCache epslNew q))"
proof -
  have st: "UpdateEndpointSlice_stored epslOld epslNew p = (Inr epslOld, p)"
    using assms(1)
    by (simp add: UpdateEndpointSlice_stored_def getCachedEpSlVersion_def getLastKnownEpSlFromCache_def)
  show ?thesis
    using assms(2,3)
    by (simp add: UpdateEndpointSlice_def st UpdateEndpointSlice_diff_def perform_all_append
          UpdateEndpointSlice_new_actions UpdateEndpointSlice_old_actions
          split: prod.splits option.splits)
qed

text \<open>The theorem at an update that adds two backends to an empty slice.\<close>

definition ex_old0 :: EndpointSlice where
  "ex_old0 = ex_slice ''1'' [] True"

definition ex_new2 :: EndpointSlice where
  "ex_new2 = ex_slice ''2'' [''10.244.1.5'', ''10.244.1.6''] True"

lemma ex_new2_tuples:
  "processEpSlice ex_new2 = Inr [ex_tuple ''10.244.1.5'', ex_tuple ''10.244.1.6'']"
  by (simp add: ex_new2_def slice_defs deref_def getSvcPortName_def ex_tuple_def ex_key_def ex_port_def)

lemma ex_old0_tuples: "processEpSlice ex_old0 = Inr []"
  by (simp add: ex_old0_def slice_defs deref_def)

lemma ex_old0_cached:
  "epslCache (storeEpSlInCache ex_old0 ex_P0) (epsl_Name ex_new2, epsl_Namespace ex_new2) = Some ex_old0"
  by (simp add: storeEpSlInCache_def ex_old0_def ex_new2_def ex_slice_def)

theorem UpdateEndpointSlice_performs_actions_in_order_witness:
  "epslCache (storeEpSlInCache ex_old0 ex_P0) (epsl_Name ex_new2, epsl_Namespace ex_new2) = Some ex_old0
   \<and> processEpSlice ex_new2 = Inr [ex_tuple ''10.244.1.5'', ex_tuple ''10.244.1.6'']
   \<and> processEpSlice ex_old0 = Inr []
   \<and> UpdateEndpointSlice ex_old0 ex_new2 (storeEpSlInCache ex_old0 ex_P0) =
       (case perform_all ex_new2
               (List.map_filter (new_action ex_old0) [ex_tuple ''10.244.1.5'', ex_tuple ''10.244.1.6'']
                  @ List.map_filter (old_action ex_new2) []) (storeEpSlInCache ex_old0 ex_P0) of
          (Some pn, q) \<Rightarrow> (Some pn, q)
        | (None, q) \<Rightarrow> (None, storeEpSlInCache ex_new2 q))"
  using UpdateEndpointSlice_performs_actions_in_order [OF ex_old0_cached ex_new2_tuples ex_old0_tuples]
        ex_old0_cached ex_new2_tuples ex_old0_tuples
  by simp

text \<open>
  The claim as it was stated fails on the order of the actions. The cached old slice has
  no address and the new one has the ready addresses 10.244.1.5 and 10.244.1.6: the
  actions are the two additions. The handler leaves the backends of the service port in
  the order 10.244.1.5, 10.244.1.6; the same two additions performed in the other order
  leave them in the order 10.244.1.6, 10.244.1.5, which is another state
  (\<^verbatim>\<open>endpointsMap\<close> holds a list, and the dispatch rules are programmed from it in that order).
\<close>

theorem UpdateEndpointSlice_additions_do_not_commute:
  "List.map_filter (new_action ex_old0) [ex_tuple ''10.244.1.5'', ex_tuple ''10.244.1.6'']
       @ List.map_filter (old_action ex_new2) []
     = [Add (ex_tuple ''10.244.1.5''), Add (ex_tuple ''10.244.1.6'')]
   \<and> map ei_IP (eps_of (snd (UpdateEndpointSlice ex_old0 ex_new2 (storeEpSlInCache ex_old0 ex_P0))) ex_key)
       = [''10.244.1.5'', ''10.244.1.6'']
   \<and> map ei_IP (eps_of (snd (perform_all ex_new2
                                  [Add (ex_tuple ''10.244.1.6''), Add (ex_tuple ''10.244.1.5'')]
                                  (storeEpSlInCache ex_old0 ex_P0))) ex_key)
       = [''10.244.1.6'', ''10.244.1.5'']"
  by (simp add: List.map_filter_simps new_action_def old_action_def perform_def ex_old0_def ex_new2_def
        ex_tuple_def slice_defs proxy_defs driver_defs ex_defs)

subsection \<open>The order of the driver calls when an endpoint is deleted\<close>

text \<open>The service \<^verbatim>\<open>default/web\<close> of the running example with its two backends, and the
  names of their chains.\<close>

definition ex_P2 :: proxy where
  "ex_P2 = snd (AddEndpoints ex_ep2 (snd (AddService (Some ex_svc) ex_P0)))"

definition ex_cnA :: string where
  "ex_cnA = ''k8s-nfproxy-sep-'' @ sep_id (spn_String ex_key) ''TCP''
              (ei_Endpoint (endpointsInfo IPv4Protocol ''TCP'' ''10.244.1.5'' 8080 False []))"

definition ex_cnB :: string where
  "ex_cnB = ''k8s-nfproxy-sep-'' @ sep_id (spn_String ex_key) ''TCP''
              (ei_Endpoint (endpointsInfo IPv4Protocol ''TCP'' ''10.244.1.6'' 8080 False []))"

text \<open>What is read off a state below: the driver calls issued after the first eight (those
  of the set-up), the backends of the service port, the targets of the dispatch rules in
  the service chain, and the chain of the backend 10.244.1.6.\<close>

definition stale_view ::
    "proxy \<Rightarrow> driver_op list \<times> string list \<times> string option list \<times> krule list option" where
  "stale_view p =
     (drop 8 (k_journal (nfti p)), map ei_IP (eps_of p ex_key),
      map kr_jump (rules_of (nfti p) TableFamilyIPv4 (K8sSvcPrefix @ ex_svcID)),
      k_chains (nfti p) (TableFamilyIPv4, ex_cnB))"

lemma ex_P2_journal:
  "k_journal (nfti ex_P2) =
     [OpAddServiceChains TableFamilyIPv4 ex_svcID,
      OpProgramServiceClusterIP TableFamilyIPv4 (K8sSvcPrefix @ ex_svcID) ''10.96.0.10'' ''TCP'' 80,
      OpAddToNoEndpointsList TableFamilyIPv4 ''TCP'' ''10.96.0.10'' 80,
      OpAddEndpointRules TableFamilyIPv4 ex_cnA ''10.244.1.5'' ''TCP'' 8080,
      OpRemoveFromNoEndpointsList TableFamilyIPv4 ''TCP'' ''10.96.0.10'' 80,
      OpProgramServiceEndpoints TableFamilyIPv4 (K8sSvcPrefix @ ex_svcID) [ex_cnA] [],
      OpAddEndpointRules TableFamilyIPv4 ex_cnB ''10.244.1.6'' ''TCP'' 8080,
      OpProgramServiceEndpoints TableFamilyIPv4 (K8sSvcPrefix @ ex_svcID) [ex_cnA, ex_cnB] [4]]"
  by (simp add: proxy_defs driver_defs ex_defs ex_P2_def ex_cnA_def ex_cnB_def)

lemma ex_P2_backends: "map ei_IP (eps_of ex_P2 ex_key) = [''10.244.1.5'', ''10.244.1.6'']"
  by (simp add: proxy_defs driver_defs ex_defs ex_P2_def)

lemma ex_P2_first_deleteEndpoint:
  "(case deleteEndpoint ex_key ex_addrA ex_port (eps_of ex_P2 ex_key) ex_P2 of
      (r, eps', p') \<Rightarrow>
        r = None \<and> map ei_IP eps' = [''10.244.1.6'', ''10.244.1.6'']
        \<and> map ei_IP (eps_of p' ex_key) = [''10.244.1.6''])"
  by (simp add: proxy_defs driver_defs ex_defs ex_P2_def)

lemma ex_P2_stale_view:
  "stale_view (snd (UpdateEndpoints ex_ep2 ex_ep0 ex_P2)) =
     ([OpProgramServiceEndpoints TableFamilyIPv4 (K8sSvcPrefix @ ex_svcID) [ex_cnB] [7, 8],
       OpDeleteEndpointRules TableFamilyIPv4 ex_cnA [2, 3],
       OpDeleteChain TableFamilyIPv4 ex_cnA,
       OpProgramServiceEndpoints TableFamilyIPv4 (K8sSvcPrefix @ ex_svcID) [ex_cnB] [9],
       OpDeleteEndpointRules TableFamilyIPv4 ex_cnB [5, 6],
       OpDeleteChain TableFamilyIPv4 ex_cnB,
       OpProgramServiceEndpoints TableFamilyIPv4 (K8sSvcPrefix @ ex_svcID) [ex_cnB] [10],
       OpDeleteEndpointRules TableFamilyIPv4 ex_cnB [5, 6],
       OpDeleteChain TableFamilyIPv4 ex_cnB],
      [''10.244.1.6''], [Some ex_cnB], None)"
  by (simp add: stale_view_def proxy_defs driver_defs ex_defs ex_P2_def ex_cnA_def ex_cnB_def)

text \<open>
  Claim C6 does not hold of the code. \<^verbatim>\<open>deleteEndpointRules\<close> does issue its calls in the
  order of the claim: \<^verbatim>\<open>UpdateServiceChain\<close>, then the deletion of the rules of the endpoint
  chain, then the deletion of the chain. But \<^verbatim>\<open>UpdateServiceChain\<close> programs the dispatch
  rules from \<^verbatim>\<open>endpointsMap\<close>, and \<^verbatim>\<open>deleteEndpoint\<close> stores there the list it was given with
  the match cut out, not the list of the map. \<^verbatim>\<open>UpdateEndpoints\<close> reads the list once for a
  port and hands it to \<^verbatim>\<open>deleteEndpoint\<close> for every address. The service has the backends
  10.244.1.5 and 10.244.1.6 and an update removes both. The first \<^verbatim>\<open>deleteEndpoint\<close> is as
  the claim says, and leaves the caller's list as 10.244.1.6 twice while the map holds it
  once. The second \<^verbatim>\<open>deleteEndpoint\<close> finds 10.244.1.6 in the first place, stores the rest
  of the stale list, which is 10.244.1.6 again, so \<^verbatim>\<open>UpdateServiceChain\<close> programs the
  dispatch rule to the chain of 10.244.1.6 and the rules of that chain and the chain
  itself are deleted right after; it then finds 10.244.1.6 in the second place and does
  the same once more. In the end the dispatch rule of the service jumps to the chain of
  10.244.1.6, which no longer exists, and \<^verbatim>\<open>endpointsMap\<close> still lists that backend.
\<close>

theorem deleteEndpoint_stale_list_keeps_dispatch_to_deleted_chain:
  "k_journal (nfti ex_P2) =
     [OpAddServiceChains TableFamilyIPv4 ex_svcID,
      OpProgramServiceClusterIP TableFamilyIPv4 (K8sSvcPrefix @ ex_svcID) ''10.96.0.10'' ''TCP'' 80,
      OpAddToNoEndpointsList TableFamilyIPv4 ''TCP'' ''10.96.0.10'' 80,
      OpAddEndpointRules TableFamilyIPv4 ex_cnA ''10.244.1.5'' ''TCP'' 8080,
      OpRemoveFromNoEndpointsList TableFamilyIPv4 ''TCP'' ''10.96.0.10'' 80,
      OpProgramServiceEndpoints TableFamilyIPv4 (K8sSvcPrefix @ ex_svcID) [ex_cnA] [],
      OpAddEndpointRules TableFamilyIPv4 ex_cnB ''10.244.1.6'' ''TCP'' 8080,
      OpProgramServiceEndpoints TableFamilyIPv4 (K8sSvcPrefix @ ex_svcID) [ex_cnA, ex_cnB] [4]]
   \<and> map ei_IP (eps_of ex_P2 ex_key) = [''10.244.1.5'', ''10.244.1.6'']
   \<and> (case deleteEndpoint ex_key ex_addrA ex_port (eps_of ex_P2 ex_key) ex_P2 of
        (r, eps', p') \<Rightarrow>
          r = None \<and> map ei_IP eps' = [''10.244.1.6'', ''10.244.1.6'']
          \<and> map ei_IP (eps_of p' ex_key) = [''10.244.1.6''])
   \<and> drop 8 (k_journal (nfti (snd (UpdateEndpoints ex_ep2 ex_ep0 ex_P2)))) =
       [OpProgramServiceEndpoints TableFamilyIPv4 (K8sSvcPrefix @ ex_svcID) [ex_cnB] [7, 8],
        OpDeleteEndpointRules TableFamilyIPv4 ex_cnA [2, 3],
        OpDeleteChain TableFamilyIPv4 ex_cnA,
        OpProgramServiceEndpoints TableFamilyIPv4 (K8sSvcPrefix @ ex_svcID) [ex_cnB] [9],
        OpDeleteEndpointRules TableFamilyIPv4 ex_cnB [5, 6],
        OpDeleteChain TableFamilyIPv4 ex_cnB,
        OpProgramServiceEndpoints TableFamilyIPv4 (K8sSvcPrefix @ ex_svcID) [ex_cnB] [10],
        OpDeleteEndpointRules TableFamilyIPv4 ex_cnB [5, 6],
        OpDeleteChain TableFamilyIPv4 ex_cnB]
   \<and> map ei_IP (eps_of (snd (UpdateEndpoints ex_ep2 ex_ep0 ex_P2)) ex_key) = [''10.244.1.6'']
   \<and> map kr_jump (rules_of (nfti (snd (UpdateEndpoints ex_ep2 ex_ep0 ex_P2))) TableFamilyIPv4
                     (K8sSvcPrefix @ ex_svcID)) = [Some ex_cnB]
   \<and> k_chains (nfti (snd (UpdateEndpoints ex_ep2 ex_ep0 ex_P2))) (TableFamilyIPv4, ex_cnB) = None"
proof -
  note v = ex_P2_stale_view [unfolded stale_view_def prod.inject]
  show ?thesis
    using ex_P2_journal ex_P2_backends ex_P2_first_deleteEndpoint v
    by (intro conjI) (elim conjE, assumption)+
qed

end
